theory Spec2Isabelle
  imports Main "HOL-Library.AList"
begin

section \<open>JavaScript values\<close>

text \<open>
  The values that travel as JSON between the browser, the gateway routes and the remote
  API. \<open>JUndefined\<close> is JavaScript's \<open>undefined\<close>: it never arrives in a parsed
  document, but an object literal of the program can hold it (and \<open>JSON.stringify\<close> then
  drops the property). Numbers are opaque payload in everything modelled here; an integer
  stands for the numeral. An object is the list of its own properties in insertion order;
  the first binding of a key is the one a lookup sees.
\<close>

datatype json =
    JUndefined
  | JNull
  | JBool bool
  | JNum int
  | JStr string
  | JArr "json list"
  | JObj "(string \<times> json) list"

datatype js_error = TypeError | SyntaxError | OtherError string

definition nullish :: "json \<Rightarrow> bool" where
  "nullish v = (v = JUndefined \<or> v = JNull)"

text \<open>JavaScript truthiness (\<open>!x\<close>, \<open>x || y\<close>) on these values.\<close>

fun truthy :: "json \<Rightarrow> bool" where
  "truthy JUndefined = False"
| "truthy JNull = False"
| "truthy (JBool b) = b"
| "truthy (JNum n) = (n \<noteq> 0)"
| "truthy (JStr s) = (s \<noteq> [])"
| "truthy (JArr xs) = True"
| "truthy (JObj kvs) = True"

definition digit_char :: "nat \<Rightarrow> char" where
  "digit_char d = ''0123456789'' ! (d mod 10)"

fun show_nat :: "nat \<Rightarrow> string" where
  "show_nat n = (if n < 10 then [digit_char n] else show_nat (n div 10) @ [digit_char (n mod 10)])"

declare show_nat.simps [simp del]

fun indexed :: "nat \<Rightarrow> 'a list \<Rightarrow> (string \<times> 'a) list" where
  "indexed i [] = []"
| "indexed i (x # xs) = (show_nat i, x) # indexed (Suc i) xs"

text \<open>
  The own enumerable properties of a value, which is what the spread \<open>{...v}\<close> copies:
  the properties of an object, the indexed elements of an array, the indexed characters
  of a string, and nothing for \<open>undefined\<close>, \<open>null\<close>, a number or a boolean.
\<close>

fun own_props :: "json \<Rightarrow> (string \<times> json) list" where
  "own_props (JObj kvs) = kvs"
| "own_props (JArr xs) = indexed 0 xs"
| "own_props (JStr s) = indexed 0 (map (\<lambda>c. JStr [c]) s)"
| "own_props JUndefined = []"
| "own_props JNull = []"
| "own_props (JBool b) = []"
| "own_props (JNum n) = []"

definition own_prop :: "json \<Rightarrow> string \<Rightarrow> json option" where
  "own_prop v k = map_of (own_props v) k"

text \<open>
  Member access \<open>v.k\<close>: a \<open>TypeError\<close> on \<open>undefined\<close> and \<open>null\<close>, the own property
  otherwise, \<open>undefined\<close> when there is none. The program reads only the keys
  \<open>maritalStatus\<close>, \<open>resourceType\<close>, \<open>id\<close>, \<open>access_token\<close> and \<open>refresh_token\<close> this
  way, none of which is a built-in
  property of a string or an array.
\<close>

definition member_access :: "json \<Rightarrow> string \<Rightarrow> js_error + json" where
  "member_access v k =
     (if nullish v then Inl TypeError
      else Inr (case own_prop v k of None \<Rightarrow> JUndefined | Some x \<Rightarrow> x))"

text \<open>
  One \<open>key: value\<close> entry of an object literal, written after whatever the literal
  already holds: an existing key keeps its place and takes the new value, a new key goes
  to the end.
\<close>

definition set_prop :: "(string \<times> json) list \<Rightarrow> string \<times> json \<Rightarrow> (string \<times> json) list" where
  "set_prop kvs kv = AList.update (fst kv) (snd kv) kvs"

definition object_literal :: "(string \<times> json) list \<Rightarrow> (string \<times> json) list \<Rightarrow> json" where
  "object_literal spread entries = JObj (foldl set_prop spread entries)"


section \<open>The edit form and the write-back merge (PatientsModal.tsx)\<close>

record PatientTelecom =
  tel_system :: string
  tel_value :: string
  tel_use :: "string option"
  tel_rank :: "string option"

text \<open>The JSON document of a telecom entry; an absent optional field is an absent key.\<close>

definition optional_entry :: "string \<Rightarrow> string option \<Rightarrow> (string \<times> json) list" where
  "optional_entry k v = (case v of None \<Rightarrow> [] | Some s \<Rightarrow> [(k, JStr s)])"

definition telecom_json :: "PatientTelecom \<Rightarrow> json" where
  "telecom_json t =
     JObj ([(''system'', JStr (tel_system t)), (''value'', JStr (tel_value t))]
           @ optional_entry ''use'' (tel_use t) @ optional_entry ''rank'' (tel_rank t))"

text \<open>The component's \<open>formData\<close> state.\<close>

record form_data =
  fd_telecom :: "PatientTelecom list"
  fd_family :: string
  fd_given :: "string list"
  fd_gender :: string
  fd_birthDate :: string
  fd_active :: bool
  fd_maritalStatus :: string

text \<open>
  The object literal \<open>updatedPatient\<close> of \<open>handleSave\<close>:
  \<^verbatim>\<open>{ ...patient.raw, telecom, name: [{family, given}], gender, birthDate, active,
    maritalStatus: { ...patient.raw.maritalStatus, text } }\<close>.
  Reading \<open>patient.raw.maritalStatus\<close> throws when \<open>patient.raw\<close> is \<open>null\<close> or
  \<open>undefined\<close>; the handler's \<open>catch\<close> then reports the failure and nothing is sent.
\<close>

definition edited_name :: "form_data \<Rightarrow> json" where
  "edited_name fd =
     JArr [JObj [(''family'', JStr (fd_family fd)), (''given'', JArr (map JStr (fd_given fd)))]]"

definition merged_maritalStatus :: "json \<Rightarrow> form_data \<Rightarrow> json" where
  "merged_maritalStatus ms fd = object_literal (own_props ms) [(''text'', JStr (fd_maritalStatus fd))]"

definition updatedPatient :: "json \<Rightarrow> form_data \<Rightarrow> js_error + json" where
  "updatedPatient raw fd =
     (case member_access raw ''maritalStatus'' of
        Inl e \<Rightarrow> Inl e
      | Inr ms \<Rightarrow>
          Inr (object_literal (own_props raw)
                 [(''telecom'', JArr (map telecom_json (fd_telecom fd))),
                  (''name'', edited_name fd),
                  (''gender'', JStr (fd_gender fd)),
                  (''birthDate'', JStr (fd_birthDate fd)),
                  (''active'', JBool (fd_active fd)),
                  (''maritalStatus'', merged_maritalStatus ms fd)]))"

text \<open>The keys the edit form covers.\<close>

definition edited_keys :: "string list" where
  "edited_keys = [''telecom'', ''name'', ''gender'', ''birthDate'', ''active'', ''maritalStatus'']"

text \<open>
  \<open>handleSave\<close>: nothing happens without a loaded patient; otherwise the merged document
  is the body of a PUT to the gateway route of the patient's id.
\<close>

record PatientData =
  pd_id :: string
  pd_raw :: json

datatype save_outcome = NoPatient | SaveFailed js_error | PutSent string json

definition handleSave :: "PatientData option \<Rightarrow> form_data \<Rightarrow> save_outcome" where
  "handleSave patient fd =
     (case patient of
        None \<Rightarrow> NoPatient
      | Some p \<Rightarrow>
          (case updatedPatient (pd_raw p) fd of
             Inl e \<Rightarrow> SaveFailed e
           | Inr doc \<Rightarrow> PutSent (''/api/patients/'' @ pd_id p) doc))"


section \<open>Typed values of the gateway routes\<close>

text \<open>
  The routes declare the remote documents by TypeScript interfaces (\<open>FhirPatient\<close>,
  \<open>FhirEntry\<close>, \<open>FhirLink\<close>); an optional field \<open>f?: T\<close> is a \<open>T option\<close>, \<open>None\<close>
  for \<open>undefined\<close>. The operators the routes apply to such fields:
\<close>

text \<open>\<open>x || d\<close> on \<open>string | undefined\<close>: the empty string is falsy as well.\<close>

definition or_else :: "string option \<Rightarrow> string \<Rightarrow> string" where
  "or_else x d = (case x of None \<Rightarrow> d | Some s \<Rightarrow> if s = [] then d else s)"

text \<open>\<open>x ?? d\<close>, and \<open>x || d\<close> on an optional array (an array is always truthy).\<close>

definition nullish_or :: "'a option \<Rightarrow> 'a \<Rightarrow> 'a" where
  "nullish_or x d = (case x of None \<Rightarrow> d | Some v \<Rightarrow> v)"

text \<open>\<open>xs?.[0]\<close>: \<open>undefined\<close> when the array is absent or empty.\<close>

definition first :: "'a list option \<Rightarrow> 'a option" where
  "first xs = (case xs of None \<Rightarrow> None | Some [] \<Rightarrow> None | Some (x # _) \<Rightarrow> Some x)"

text \<open>\<open>x?.f\<close> for an optional field \<open>f\<close>.\<close>

definition chain :: "'a option \<Rightarrow> ('a \<Rightarrow> 'b option) \<Rightarrow> 'b option" where
  "chain x f = (case x of None \<Rightarrow> None | Some v \<Rightarrow> f v)"

text \<open>\<open>xs?.find(p)\<close>.\<close>

definition chain_find :: "'a list option \<Rightarrow> ('a \<Rightarrow> bool) \<Rightarrow> 'a option" where
  "chain_find xs p = (case xs of None \<Rightarrow> None | Some ys \<Rightarrow> find p ys)"

definition opt_json :: "string option \<Rightarrow> json" where
  "opt_json x = (case x of None \<Rightarrow> JUndefined | Some s \<Rightarrow> JStr s)"

record fhir_meta =
  m_lastUpdated :: "string option"

record sub_extension =
  sx_url :: string
  sx_valueString :: "string option"

record fhir_extension =
  x_url :: string
  x_extension :: "sub_extension list option"

record fhir_identifier =
  i_system :: "string option"
  i_value :: "string option"

record human_name =
  n_family :: "string option"
  n_given :: "string list option"

record fhir_coding =
  c_system :: "string option"
  c_code :: "string option"
  c_display :: "string option"

record marital_status =
  ms_coding :: "fhir_coding list option"
  ms_text :: "string option"

record PatientAddress =
  a_use :: "string option"
  a_line :: "string list option"
  a_city :: "string option"
  a_state :: "string option"
  a_postalCode :: "string option"
  a_country :: "string option"

record FhirPatient =
  p_resourceType :: string
  p_id :: string
  p_meta :: "fhir_meta option"
  p_extension :: "fhir_extension list option"
  p_identifier :: "fhir_identifier list option"
  p_active :: "bool option"
  p_name :: "human_name list option"
  p_telecom :: "PatientTelecom list option"
  p_gender :: "string option"
  p_birthDate :: "string option"
  p_deceasedBoolean :: "bool option"
  p_maritalStatus :: "marital_status option"
  p_address :: "PatientAddress list option"

definition address_json :: "PatientAddress \<Rightarrow> json" where
  "address_json a =
     JObj (optional_entry ''use'' (a_use a)
           @ (case a_line a of None \<Rightarrow> [] | Some ls \<Rightarrow> [(''line'', JArr (map JStr ls))])
           @ optional_entry ''city'' (a_city a) @ optional_entry ''state'' (a_state a)
           @ optional_entry ''postalCode'' (a_postalCode a)
           @ optional_entry ''country'' (a_country a))"


section \<open>The flattened view (GET and PUT /api/patients/[id])\<close>

text \<open>
  The \<open>name\<close> object, which the three routes build by the same expression:
  \<^verbatim>\<open>{ family: name?.[0]?.family || 'Unknown', given: name?.[0]?.given || ['Unknown'],
    full: `${name?.[0]?.given?.[0] || 'Unknown'} ${name?.[0]?.family || 'Unknown'}` }\<close>.
\<close>

definition name_view :: "human_name list option \<Rightarrow> json" where
  "name_view nm =
     JObj [(''family'', JStr (or_else (chain (first nm) n_family) ''Unknown'')),
           (''given'', JArr (map JStr (nullish_or (chain (first nm) n_given) [''Unknown'']))),
           (''full'', JStr (or_else (first (chain (first nm) n_given)) ''Unknown'' @ '' ''
                            @ or_else (chain (first nm) n_family) ''Unknown''))]"

definition ethnicity_url :: string where
  "ethnicity_url = ''http://hl7.org/fhir/us/core/StructureDefinition/us-core-ethnicity''"

definition ethnicity :: "fhir_extension list option \<Rightarrow> string" where
  "ethnicity exts =
     or_else
       (chain (chain_find (chain (chain_find exts (\<lambda>ext. x_url ext = ethnicity_url)) x_extension)
                 (\<lambda>subExt. sx_url subExt = ''text''))
          sx_valueString)
       ''Unspecified''"

text \<open>The \<open>formatted\<close> object of \<open>transformedPatient\<close>.\<close>

definition formatted :: "FhirPatient \<Rightarrow> json" where
  "formatted patientData =
     JObj [(''identifier'', JStr (or_else (chain (first (p_identifier patientData)) i_value) ''N/A'')),
           (''name'', name_view (p_name patientData)),
           (''gender'', JStr (or_else (p_gender patientData) ''unknown'')),
           (''birthDate'', JStr (or_else (p_birthDate patientData) ''Unknown'')),
           (''active'', JBool (nullish_or (p_active patientData) False)),
           (''deceased'', JBool (nullish_or (p_deceasedBoolean patientData) False)),
           (''maritalStatus'', JStr (or_else (chain (p_maritalStatus patientData) ms_text) ''Unknown'')),
           (''lastUpdated'', JStr (or_else (chain (p_meta patientData) m_lastUpdated) ''Unknown'')),
           (''telecom'', JArr (map telecom_json (nullish_or (p_telecom patientData) []))),
           (''address'', JArr (map address_json (nullish_or (p_address patientData) []))),
           (''ethnicity'', JStr (ethnicity (p_extension patientData)))]"

record transformedPatient =
  tp_id :: string
  tp_resourceType :: string
  tp_raw :: FhirPatient
  tp_formatted :: json

definition transform_patient :: "FhirPatient \<Rightarrow> transformedPatient" where
  "transform_patient patientData =
     \<lparr>tp_id = p_id patientData, tp_resourceType = p_resourceType patientData,
      tp_raw = patientData, tp_formatted = formatted patientData\<rparr>"

text \<open>Whether \<open>null\<close> or \<open>undefined\<close> occurs anywhere in a value.\<close>

fun has_nullish :: "json \<Rightarrow> bool" where
  "has_nullish JUndefined = True"
| "has_nullish JNull = True"
| "has_nullish (JBool b) = False"
| "has_nullish (JNum n) = False"
| "has_nullish (JStr s) = False"
| "has_nullish (JArr xs) = list_ex has_nullish xs"
| "has_nullish (JObj kvs) = list_ex (\<lambda>kv. has_nullish (snd kv)) kvs"

text \<open>A patient resource with every optional field absent.\<close>

definition bare_patient :: "string \<Rightarrow> string \<Rightarrow> FhirPatient" where
  "bare_patient rtype pid =
     \<lparr>p_resourceType = rtype, p_id = pid, p_meta = None, p_extension = None,
      p_identifier = None, p_active = None, p_name = None, p_telecom = None,
      p_gender = None, p_birthDate = None, p_deceasedBoolean = None,
      p_maritalStatus = None, p_address = None\<rparr>"


section \<open>Requests, responses and the remote API\<close>

text \<open>
  The environment variables the routes parse at start-up, and \<open>NODE_ENV\<close>, which the
  login route reads when it sets its cookies.
\<close>

record env =
  NEXT_BASE_URL :: string
  NEXT_FIRM_URL_PREFIX :: string
  NEXT_API_KEY :: string
  NODE_ENV :: "string option"

text \<open>
  A route returns its response together with the calls it made to the remote API, in
  order. The query of a call is kept as the pairs given to \<open>URLSearchParams\<close>, not as
  their encoding.
\<close>

datatype payload = NoBody | JsonBody json | FormBody "(string \<times> string) list"

record outbound =
  o_method :: string
  o_url :: string
  o_query :: "(string \<times> string) list"
  o_headers :: "(string \<times> string) list"
  o_body :: payload

text \<open>
  What a \<open>fetch\<close> gives back: it throws, or it resolves to a response whose body
  \<open>response.json()\<close> parses (\<open>None\<close>: the parse throws a \<open>SyntaxError\<close>).
\<close>

record 'a fetch_response =
  fr_status :: nat
  fr_statusText :: string
  fr_text :: string
  fr_json :: "'a option"

datatype 'a fetch_result = FetchThrows js_error | FetchResponse "'a fetch_response"

definition ok :: "'a fetch_response \<Rightarrow> bool" where
  "ok r = (200 \<le> fr_status r \<and> fr_status r \<le> 299)"

record cookie =
  ck_name :: string
  ck_value :: json
  ck_httpOnly :: bool
  ck_secure :: bool
  ck_sameSite :: string
  ck_maxAge :: nat

datatype issue = InvalidType string | TooSmall string string

record links =
  l_self :: "string option"
  l_next :: "string option"
  l_prev :: "string option"

record pagination =
  currentPage :: "int option"
  hasNext :: bool
  hasPrev :: bool

record transformedData =
  td_total :: int
  td_patients :: "json list"
  td_links :: links
  td_pagination :: pagination

datatype response_body =
    ErrorBody string
  | ErrorDetails string string
  | ErrorIssues string "issue list"
  | ErrorMessage string js_error
  | ErrorData json
  | PatientBody transformedPatient
  | UpdatedBody string transformedPatient
  | ListBody transformedData
  | RawBody json

record response =
  rsp_status :: nat
  rsp_body :: response_body
  rsp_cookies :: "cookie list"

definition json_response :: "response_body \<Rightarrow> nat \<Rightarrow> response" where
  "json_response b st = \<lparr>rsp_status = st, rsp_body = b, rsp_cookies = []\<rparr>"

text \<open>\<open>!accessToken\<close> on the value of the \<open>access_token\<close> cookie.\<close>

definition missing :: "string option \<Rightarrow> bool" where
  "missing tok = (tok = None \<or> tok = Some [])"

definition patient_url :: "env \<Rightarrow> string" where
  "patient_url e = NEXT_BASE_URL e @ ''/'' @ NEXT_FIRM_URL_PREFIX e @ ''/ema/fhir/v2/Patient''"

definition grant_url :: "env \<Rightarrow> string" where
  "grant_url e = NEXT_BASE_URL e @ ''/'' @ NEXT_FIRM_URL_PREFIX e @ ''/ema/ws/oauth2/grant''"

text \<open>
  A template literal's substitution \<open>${x}\<close> of \<open>string | undefined\<close>, and the header
  value \<open>`Bearer ${x}`\<close>.
\<close>

definition template :: "string option \<Rightarrow> string" where
  "template x = (case x of None \<Rightarrow> ''undefined'' | Some s \<Rightarrow> s)"

definition bearer :: "string option \<Rightarrow> string" where
  "bearer tok = ''Bearer '' @ template tok"

text \<open>
  The routes' \<open>catch\<close> for a thrown \<open>Error\<close>. (Their \<open>ZodError\<close> branch cannot be
  reached from inside a handler: the environment is parsed when the module loads.)
\<close>

definition internal_error :: "js_error \<Rightarrow> response" where
  "internal_error e = json_response (ErrorMessage ''Internal server error'' e) 500"


section \<open>GET /api/patients/[id]\<close>

definition GET_patient ::
  "env \<Rightarrow> string \<Rightarrow> string option \<Rightarrow> FhirPatient fetch_result \<Rightarrow> response \<times> outbound list" where
  "GET_patient e pid accessToken remote =
     (if pid = [] then (json_response (ErrorBody ''Patient ID is required'') 400, [])
      else if missing accessToken
      then (json_response (ErrorBody ''Unauthorized - No access token found'') 401, [])
      else
        let call = \<lparr>o_method = ''GET'', o_url = patient_url e @ ''/'' @ pid, o_query = [],
                     o_headers = [(''Accept'', ''application/fhir+json''),
                                  (''Authorization'', bearer accessToken),
                                  (''x-api-key'', NEXT_API_KEY e)],
                     o_body = NoBody\<rparr>
        in (case remote of
              FetchThrows err \<Rightarrow> (internal_error err, [call])
            | FetchResponse r \<Rightarrow>
                if \<not> ok r then
                  (if fr_status r = 401
                   then json_response (ErrorBody ''Unauthorized - Token may be expired'') 401
                   else if fr_status r = 404
                   then json_response (ErrorBody ''Patient not found'') 404
                   else json_response
                          (ErrorBody (''Failed to fetch patient: '' @ fr_statusText r))
                          (fr_status r),
                   [call])
                else
                  (case fr_json r of
                     None \<Rightarrow> (internal_error SyntaxError, [call])
                   | Some patientData \<Rightarrow>
                       (json_response (PatientBody (transform_patient patientData)) 200,
                        [call]))))"


section \<open>PUT /api/patients/[id]\<close>

text \<open>
  \<open>request.json()\<close> gives the body (\<open>None\<close>: it throws a \<open>SyntaxError\<close>, which this
  route's \<open>catch\<close> answers with 400). \<open>body.id !== id\<close> compares a JSON value with the
  path's string: they are equal only when the value is that very string.
\<close>

definition PUT_patient ::
  "env \<Rightarrow> string \<Rightarrow> string option \<Rightarrow> json option \<Rightarrow> FhirPatient fetch_result
     \<Rightarrow> response \<times> outbound list" where
  "PUT_patient e pid accessToken parsed remote =
     (if pid = [] then (json_response (ErrorBody ''Patient ID is required'') 400, [])
      else if missing accessToken
      then (json_response (ErrorBody ''Unauthorized - No access token found'') 401, [])
      else
        (case parsed of
           None \<Rightarrow> (json_response (ErrorBody ''Invalid JSON in request body'') 400, [])
         | Some body \<Rightarrow>
             (case member_access body ''resourceType'' of
                Inl err \<Rightarrow> (internal_error err, [])
              | Inr rtype \<Rightarrow>
                  (case member_access body ''id'' of
                     Inl err \<Rightarrow> (internal_error err, [])
                   | Inr bid \<Rightarrow>
                       if \<not> truthy rtype \<or> \<not> truthy bid
                       then (json_response
                               (ErrorBody ''Invalid patient data - resourceType and id are required'')
                               400, [])
                       else if bid \<noteq> JStr pid
                       then (json_response
                               (ErrorBody ''Patient ID in URL does not match ID in request body'')
                               400, [])
                       else
                         let call = \<lparr>o_method = ''PUT'', o_url = patient_url e @ ''/'' @ pid,
                                      o_query = [],
                                      o_headers = [(''Content-Type'', ''application/fhir+json''),
                                                   (''Accept'', ''application/fhir+json''),
                                                   (''Authorization'', bearer accessToken),
                                                   (''x-api-key'', NEXT_API_KEY e)],
                                      o_body = JsonBody body\<rparr>
                         in (case remote of
                               FetchThrows err \<Rightarrow> (internal_error err, [call])
                             | FetchResponse r \<Rightarrow>
                                 if \<not> ok r then
                                   (if fr_status r = 401
                                    then json_response
                                           (ErrorBody ''Unauthorized - Token may be expired'') 401
                                    else if fr_status r = 404
                                    then json_response (ErrorBody ''Patient not found'') 404
                                    else if fr_status r = 400
                                    then json_response
                                           (ErrorDetails ''Bad request - Invalid patient data''
                                              (fr_text r)) 400
                                    else json_response
                                           (ErrorBody (''Failed to update patient: ''
                                                       @ fr_statusText r))
                                           (fr_status r),
                                    [call])
                                 else
                                   (case fr_json r of
                                      None \<Rightarrow>
                                        (json_response
                                           (ErrorBody ''Invalid JSON in request body'') 400,
                                         [call])
                                    | Some updated \<Rightarrow>
                                        (json_response
                                           (UpdatedBody ''Patient updated successfully''
                                              (transform_patient updated)) 200,
                                         [call])))))))"


section \<open>GET /api/patients\<close>

text \<open>
  \<open>FhirEntry\<close> declares narrower shapes for \<open>identifier\<close> and \<open>maritalStatus\<close> than
  \<open>FhirPatient\<close> does (only their \<open>value\<close> and \<open>text\<close>); the route reads only those
  fields, so the records above stand for them.
\<close>

record entry_resource =
  er_id :: "string option"
  er_identifier :: "fhir_identifier list option"
  er_name :: "human_name list option"
  er_gender :: "string option"
  er_birthDate :: "string option"
  er_active :: "bool option"
  er_maritalStatus :: "marital_status option"
  er_meta :: "fhir_meta option"

record FhirEntry =
  e_fullUrl :: "string option"
  e_resource :: entry_resource

record FhirLink =
  k_relation :: string
  k_url :: string

record fhir_bundle =
  b_total :: "int option"
  b_entry :: "FhirEntry list option"
  b_link :: "FhirLink list option"

text \<open>
  \<open>parseInt(page, 10)\<close>: leading white space is skipped, then an optional sign and the
  longest run of decimal digits are read; \<open>None\<close> is \<open>NaN\<close>. Characters are bytes here,
  so the white space is the ASCII part of JavaScript's, and the value is the exact
  integer (JavaScript rounds beyond \<open>2^53\<close>).
\<close>

definition js_space :: "char \<Rightarrow> bool" where
  "js_space c = (c \<in> set [CHR '' '', CHR 0x09, CHR 0x0A, CHR 0x0B, CHR 0x0C, CHR 0x0D])"

definition is_digit :: "char \<Rightarrow> bool" where
  "is_digit c = (48 \<le> (of_char c :: nat) \<and> (of_char c :: nat) \<le> 57)"

definition digits_value :: "string \<Rightarrow> nat" where
  "digits_value ds = foldl (\<lambda>a c. 10 * a + (of_char c - 48)) 0 ds"

definition parseInt10 :: "string \<Rightarrow> int option" where
  "parseInt10 s =
     (let t = dropWhile js_space s;
          neg = (t \<noteq> [] \<and> hd t = CHR ''-'');
          u = (if t \<noteq> [] \<and> (hd t = CHR ''-'' \<or> hd t = CHR ''+'') then tl t else t);
          ds = takeWhile is_digit u
      in if ds = [] then None
         else Some (if neg then - int (digits_value ds) else int (digits_value ds)))"

text \<open>One element of \<open>patients\<close>: the object the route maps a bundle entry to.\<close>

definition patient_entry :: "FhirEntry \<Rightarrow> json" where
  "patient_entry entry =
     (let patient = e_resource entry
      in JObj [(''id'', JStr (nullish_or (er_id patient) ''N/A'')),
               (''fullUrl'', opt_json (e_fullUrl entry)),
               (''identifier'', JStr (or_else (chain (first (er_identifier patient)) i_value) ''N/A'')),
               (''name'', name_view (er_name patient)),
               (''gender'', JStr (or_else (er_gender patient) ''unknown'')),
               (''birthDate'', JStr (or_else (er_birthDate patient) ''Unknown'')),
               (''active'', JBool (nullish_or (er_active patient) False)),
               (''maritalStatus'', JStr (or_else (chain (er_maritalStatus patient) ms_text) ''Unknown'')),
               (''lastUpdated'', JStr (or_else (chain (er_meta patient) m_lastUpdated) ''Unknown''))])"

text \<open>\<open>data.link?.find(link => link.relation === rel)\<close>.\<close>

definition find_link :: "fhir_bundle \<Rightarrow> string \<Rightarrow> FhirLink option" where
  "find_link data rel = chain_find (b_link data) (\<lambda>link. k_relation link = rel)"

definition transform_bundle :: "string \<Rightarrow> fhir_bundle \<Rightarrow> transformedData" where
  "transform_bundle page data =
     \<lparr>td_total = (case b_total data of None \<Rightarrow> 0 | Some n \<Rightarrow> if n = 0 then 0 else n),
      td_patients = nullish_or (map_option (map patient_entry) (b_entry data)) [],
      td_links = \<lparr>l_self = map_option k_url (find_link data ''self''),
                  l_next = map_option k_url (find_link data ''next''),
                  l_prev = map_option k_url (find_link data ''prev'')\<rparr>,
      td_pagination = \<lparr>currentPage = parseInt10 page,
                       hasNext = (find_link data ''next'' \<noteq> None),
                       hasPrev = (find_link data ''prev'' \<noteq> None)\<rparr>\<rparr>"

definition GET_patients ::
  "env \<Rightarrow> string option \<Rightarrow> string option \<Rightarrow> string option \<Rightarrow> fhir_bundle fetch_result
     \<Rightarrow> response \<times> outbound list" where
  "GET_patients e pageParam countParam accessToken remote =
     (let page = or_else pageParam ''1''; count = or_else countParam ''20''
      in if missing accessToken
         then (json_response (ErrorBody ''Unauthorized - No access token found'') 401, [])
         else
           let call = \<lparr>o_method = ''GET'', o_url = patient_url e,
                        o_query = (if page \<noteq> ''1'' then [(''page'', page)] else [])
                                  @ (if count \<noteq> ''20'' then [(''_count'', count)] else []),
                        o_headers = [(''Accept'', ''application/fhir+json''),
                                     (''Authorization'', bearer accessToken),
                                     (''x-api-key'', NEXT_API_KEY e)],
                        o_body = NoBody\<rparr>
           in (case remote of
                 FetchThrows err \<Rightarrow> (internal_error err, [call])
               | FetchResponse r \<Rightarrow>
                   if \<not> ok r then
                     (if fr_status r = 401
                      then json_response (ErrorBody ''Unauthorized - Token may be expired'') 401
                      else json_response
                             (ErrorBody (''Failed to fetch patients: '' @ fr_statusText r))
                             (fr_status r),
                      [call])
                   else
                     (case fr_json r of
                        None \<Rightarrow> (internal_error SyntaxError, [call])
                      | Some data \<Rightarrow>
                          (json_response (ListBody (transform_bundle page data)) 200, [call]))))"


section \<open>POST /api/login\<close>

text \<open>
  A form field is a string or a file; \<open>formData.get\<close> gives the first value of a name,
  \<open>null\<close> (\<open>None\<close>) when there is none. \<open>z.string().min(1, msg)\<close> raises an
  invalid-type issue on anything but a string and a too-small issue, with the schema's
  message, on the empty string; the object schema collects the issues of both fields.
\<close>

datatype form_value = FString string | FFile

definition string_min1 :: "string \<Rightarrow> string \<Rightarrow> form_value option \<Rightarrow> issue list" where
  "string_min1 path msg v =
     (case v of
        Some (FString s) \<Rightarrow> if length s < 1 then [TooSmall path msg] else []
      | Some FFile \<Rightarrow> [InvalidType path]
      | None \<Rightarrow> [InvalidType path])"

definition field_string :: "form_value option \<Rightarrow> string" where
  "field_string v = (case v of Some (FString s) \<Rightarrow> s | Some FFile \<Rightarrow> [] | None \<Rightarrow> [])"

definition loginSchema ::
  "form_value option \<Rightarrow> form_value option \<Rightarrow> issue list + string \<times> string" where
  "loginSchema username password =
     (let issues = string_min1 ''username'' ''Username is required'' username
                   @ string_min1 ''password'' ''Password is required'' password
      in if issues = [] then Inr (field_string username, field_string password)
         else Inl issues)"

text \<open>A field that is missing from the form or holds the empty string.\<close>

definition absent_or_empty :: "form_value option \<Rightarrow> bool" where
  "absent_or_empty v = (v = None \<or> v = Some (FString []))"

text \<open>
  What \<open>axios.post\<close> gives back: the response's data on a 2xx status, an \<open>AxiosError\<close>
  (with the remote response's status and data when there was one), or another error.
\<close>

datatype axios_result =
    AxiosOk json
  | AxiosError "(nat \<times> json) option"
  | AxiosThrows js_error

definition login_cookie :: "env \<Rightarrow> string \<Rightarrow> json \<Rightarrow> nat \<Rightarrow> cookie" where
  "login_cookie e cname v age =
     \<lparr>ck_name = cname, ck_value = v, ck_httpOnly = True,
      ck_secure = (NODE_ENV e = Some ''production''), ck_sameSite = ''strict'',
      ck_maxAge = age\<rparr>"

definition login_failed :: "js_error \<Rightarrow> response" where
  "login_failed err = json_response (ErrorMessage ''Login failed'' err) 500"

text \<open>
  \<open>form\<close> is what \<open>request.formData()\<close> gives (\<open>None\<close>: it throws, the body is no
  form). The body of the 500 answers stands for \<open>`Login failed: ${error.message}`\<close>.
\<close>

definition POST_login ::
  "env \<Rightarrow> (string \<times> form_value) list option \<Rightarrow> axios_result \<Rightarrow> response \<times> outbound list" where
  "POST_login e form remote =
     (case form of
        None \<Rightarrow> (login_failed TypeError, [])
      | Some formData \<Rightarrow>
          (case loginSchema (map_of formData ''username'') (map_of formData ''password'') of
             Inl issues \<Rightarrow> (json_response (ErrorIssues ''Invalid input data'' issues) 400, [])
           | Inr (username, password) \<Rightarrow>
               let call = \<lparr>o_method = ''POST'', o_url = grant_url e, o_query = [],
                            o_headers = [(''Content-Type'', ''application/x-www-form-urlencoded''),
                                         (''x-api-key'', NEXT_API_KEY e)],
                            o_body = FormBody [(''grant_type'', ''password''),
                                               (''username'', username),
                                               (''password'', password)]\<rparr>
               in (case remote of
                     AxiosThrows err \<Rightarrow> (login_failed err, [call])
                   | AxiosError resp \<Rightarrow>
                       (case resp of
                          None \<Rightarrow> (json_response (ErrorData (JStr ''Unknown login error'')) 500, [call])
                        | Some (st, d) \<Rightarrow>
                            (json_response
                               (ErrorData (if nullish d then JStr ''Unknown login error'' else d))
                               st,
                             [call]))
                   | AxiosOk data \<Rightarrow>
                       (case member_access data ''access_token'' of
                          Inl err \<Rightarrow> (login_failed err, [call])
                        | Inr access \<Rightarrow>
                            (case member_access data ''refresh_token'' of
                               Inl err \<Rightarrow> (login_failed err, [call])
                             | Inr refresh \<Rightarrow>
                                 (\<lparr>rsp_status = 200, rsp_body = RawBody data,
                                   rsp_cookies = [login_cookie e ''access_token'' access 3600,
                                                  login_cookie e ''refresh_token'' refresh
                                                    (86400 * 7)]\<rparr>,
                                  [call]))))))"


section \<open>The session client (axios instance with its interceptors)\<close>

subsection \<open>Reading a cookie out of \<open>document.cookie\<close>\<close>

text \<open>\<open>s.split(sep)\<close> for a one-character separator: never empty, \<open>[""]\<close> on \<open>""\<close>.\<close>

fun split_on :: "char \<Rightarrow> string \<Rightarrow> string list" where
  "split_on sep [] = [[]]"
| "split_on sep (c # cs) =
     (if c = sep then [] # split_on sep cs
      else (case split_on sep cs of [] \<Rightarrow> [[c]] | w # ws \<Rightarrow> (c # w) # ws))"

text \<open>\<open>s.trim()\<close>, with the white space of \<open>js_space\<close>.\<close>

definition trim :: "string \<Rightarrow> string" where
  "trim s = rev (dropWhile js_space (rev (dropWhile js_space s)))"

definition starts_with :: "string \<Rightarrow> string \<Rightarrow> bool" where
  "starts_with pre s = (take (length pre) s = pre)"

text \<open>\<open>parts[1]\<close>.\<close>

definition part1 :: "string list \<Rightarrow> string option" where
  "part1 parts = (case parts of _ # v # _ \<Rightarrow> Some v | _ \<Rightarrow> None)"

text \<open>
  \<open>document.cookie.split(';').find(cookie => cookie.trim().startsWith(pre))\<close>, and the
  value the program takes from the cookie it finds, \<open>cookie.split('=')[1]\<close>.
\<close>

definition find_cookie :: "string \<Rightarrow> string \<Rightarrow> string option" where
  "find_cookie pre doc = find (\<lambda>cookie. starts_with pre (trim cookie)) (split_on CHR '';'' doc)"

definition cookie_token :: "string \<Rightarrow> string option" where
  "cookie_token cookie = part1 (split_on CHR ''='' cookie)"

subsection \<open>Requests, errors and effects\<close>

text \<open>
  A request configuration with the fields the interceptors touch: the headers (when the
  configuration has any) and the \<open>_retry\<close> mark, \<open>False\<close> when it is not set.
\<close>

record request_config =
  rc_url :: string
  rc_headers :: "(string \<times> string) list option"
  rc_retry :: bool

text \<open>An \<open>AxiosError\<close>: \<open>error.response?.status\<close> and \<open>error.config\<close>.\<close>

record axios_error =
  err_status :: "nat option"
  err_config :: "request_config option"

definition unauthorized :: "request_config \<Rightarrow> axios_error" where
  "unauthorized config = \<lparr>err_status = Some 401, err_config = Some config\<rparr>"

datatype failure = ResponseFailure axios_error | RefreshFailure js_error

text \<open>
  What the client does to the outside: the refresh call to the grant endpoint (with the
  refresh token it sends), a call \<open>apiClient(config)\<close>, the rejection of the promise a
  caller holds for the request of a configuration, an assignment to \<open>document.cookie\<close>,
  and an assignment to \<open>window.location.href\<close>.
\<close>

datatype effect =
    RefreshCall string
  | Request request_config
  | Rejected "request_config option" failure
  | SetCookie string
  | Redirect string

record grant_data =
  g_access_token :: "string option"
  g_refresh_token :: "string option"

text \<open>
  The module's state: \<open>isRefreshing\<close> and \<open>failedQueue\<close> as the source has them, an entry
  of the queue being the request its continuation retries; the handler invocations
  suspended at \<open>await axios.post(...)\<close>, each with its \<open>originalRequest\<close>; and the effects
  so far. \<open>window\<close> says whether \<open>typeof window !== 'undefined'\<close>.
\<close>

record client =
  window :: bool
  isRefreshing :: bool
  failedQueue :: "request_config list"
  awaiting :: "request_config list"
  effects :: "effect list"

definition init_client :: "bool \<Rightarrow> client" where
  "init_client w =
     \<lparr>window = w, isRefreshing = False, failedQueue = [], awaiting = [], effects = []\<rparr>"

subsection \<open>The request interceptor\<close>

definition set_authorization :: "string option \<Rightarrow> request_config \<Rightarrow> request_config" where
  "set_authorization token config =
     (case rc_headers config of
        None \<Rightarrow> config
      | Some hs \<Rightarrow> config\<lparr>rc_headers := Some (AList.update ''Authorization'' (bearer token) hs)\<rparr>)"

definition request_interceptor :: "bool \<Rightarrow> string \<Rightarrow> request_config \<Rightarrow> request_config" where
  "request_interceptor w doc config =
     (if w then
        (case find_cookie ''access_token='' doc of
           None \<Rightarrow> config
         | Some accessTokenCookie \<Rightarrow> set_authorization (cookie_token accessTokenCookie) config)
      else config)"

subsection \<open>The response interceptor\<close>

text \<open>
  \<open>processQueue(error, token)\<close>: every entry is rejected when there is an error, resolved
  when there is none and the token is truthy, and left unsettled otherwise. A resolved
  entry's continuation sets the header and calls \<open>apiClient(originalRequest)\<close>; a rejected
  one passes the error on to its caller. The queue is emptied by the caller below.
\<close>

definition processQueue :: "failure option \<Rightarrow> string option \<Rightarrow> request_config list \<Rightarrow> effect list" where
  "processQueue error token queue =
     concat (map (\<lambda>originalRequest.
        (case error of
           Some err \<Rightarrow> [Rejected (Some originalRequest) err]
         | None \<Rightarrow>
             if \<not> missing token then [Request (set_authorization token originalRequest)]
             else [])) queue)"

text \<open>The refresh token the handler reads: \<open>''\<close> unless a window has the cookie.\<close>

definition stored_refresh_token :: "bool \<Rightarrow> string \<Rightarrow> string option" where
  "stored_refresh_token w doc =
     (if w then
        (case find_cookie ''refresh_token='' doc of
           None \<Rightarrow> Some []
         | Some refreshTokenCookie \<Rightarrow> cookie_token refreshTokenCookie)
      else Some [])"

text \<open>
  The rejection handler up to its first suspension. \<open>doc\<close> is \<open>document.cookie\<close> at that
  moment. A 401 of a request not marked \<open>_retry\<close> is queued while a refresh is running;
  otherwise the request is marked, the flag is raised and, when a refresh token is at
  hand, the refresh call is issued and the handler suspends. Without one the handler
  redirects and rejects, and its \<open>finally\<close> lowers the flag again.
\<close>

definition pass_on :: "client \<Rightarrow> axios_error \<Rightarrow> client" where
  "pass_on s error =
     s\<lparr>effects := effects s @ [Rejected (err_config error) (ResponseFailure error)]\<rparr>"

definition on_response_error :: "client \<Rightarrow> axios_error \<Rightarrow> string \<Rightarrow> client" where
  "on_response_error s error doc =
     (case err_config error of
        None \<Rightarrow> pass_on s error
      | Some originalRequest \<Rightarrow>
          if err_status error = Some 401 \<and> \<not> rc_retry originalRequest then
            (if isRefreshing s
             then s\<lparr>failedQueue := failedQueue s @ [originalRequest]\<rparr>
             else
               let marked = originalRequest\<lparr>rc_retry := True\<rparr>;
                   refreshToken = stored_refresh_token (window s) doc
               in if missing refreshToken
                  then s\<lparr>isRefreshing := False,
                         effects := effects s
                           @ (if window s then [Redirect ''/login''] else [])
                           @ [Rejected (Some marked)
                                (ResponseFailure (error\<lparr>err_config := Some marked\<rparr>))]\<rparr>
                  else s\<lparr>isRefreshing := True,
                         awaiting := awaiting s @ [marked],
                         effects := effects s @ [RefreshCall (template refreshToken)]\<rparr>)
          else pass_on s error)"

text \<open>The \<open>catch\<close> and \<open>finally\<close> of the handler, for a refresh that failed.\<close>

definition clear_cookies :: "effect list" where
  "clear_cookies =
     [SetCookie ''access_token=; path=/; expires=Thu, 01 Jan 1970 00:00:00 GMT'',
      SetCookie ''refresh_token=; path=/; expires=Thu, 01 Jan 1970 00:00:00 GMT'',
      Redirect ''/login'']"

definition refresh_failed :: "client \<Rightarrow> request_config \<Rightarrow> js_error \<Rightarrow> client" where
  "refresh_failed s originalRequest refreshError =
     s\<lparr>isRefreshing := False, failedQueue := [],
       effects := effects s
         @ processQueue (Some (RefreshFailure refreshError)) None (failedQueue s)
         @ (if window s then clear_cookies else [])
         @ [Rejected (Some originalRequest) (RefreshFailure refreshError)]\<rparr>"

text \<open>
  The handler resumed by the refresh response. Destructuring \<open>refreshResponse.data\<close>
  throws when there is no data (\<open>None\<close>), which the \<open>catch\<close> treats as a failed refresh.
  Otherwise the cookies are written, the header of the triggering request is set, the
  queue is processed with the new access token, the triggering request is sent again
  and the flag is lowered. The retries of the queue are called by continuations that
  run after the handler has returned, hence after the triggering request's.
\<close>

definition store_cookies :: "grant_data \<Rightarrow> effect list" where
  "store_cookies d =
     [SetCookie (''access_token='' @ template (g_access_token d)
                 @ ''; path=/; secure; samesite=strict; max-age=3600''),
      SetCookie (''refresh_token='' @ template (g_refresh_token d)
                 @ ''; path=/; secure; samesite=strict; max-age=604800'')]"

definition refresh_succeeded :: "client \<Rightarrow> request_config \<Rightarrow> grant_data \<Rightarrow> client" where
  "refresh_succeeded s originalRequest d =
     s\<lparr>isRefreshing := False, failedQueue := [],
       effects := effects s
         @ (if window s then store_cookies d else [])
         @ [Request (set_authorization (g_access_token d) originalRequest)]
         @ processQueue None (g_access_token d) (failedQueue s)\<rparr>"

definition resume :: "client \<Rightarrow> nat \<Rightarrow> (request_config \<Rightarrow> client \<Rightarrow> client) \<Rightarrow> client" where
  "resume s i k =
     (if i < length (awaiting s)
      then k (awaiting s ! i) (s\<lparr>awaiting := take i (awaiting s) @ drop (Suc i) (awaiting s)\<rparr>)
      else s)"

text \<open>
  The events that drive the client: a request fails (with the cookie string of that
  moment), or the refresh call of the \<open>i\<close>-th suspended handler settles. An event for a
  handler that does not exist changes nothing.
\<close>

datatype event =
    ResponseError axios_error string
  | RefreshResolved nat "grant_data option"
  | RefreshRejected nat js_error

fun step :: "client \<Rightarrow> event \<Rightarrow> client" where
  "step s (ResponseError error doc) = on_response_error s error doc"
| "step s (RefreshResolved i data) =
     resume s i (\<lambda>originalRequest s'.
       (case data of
          None \<Rightarrow> refresh_failed s' originalRequest TypeError
        | Some d \<Rightarrow> refresh_succeeded s' originalRequest d))"
| "step s (RefreshRejected i refreshError) =
     resume s i (\<lambda>originalRequest s'. refresh_failed s' originalRequest refreshError)"

definition run :: "client \<Rightarrow> event list \<Rightarrow> client" where
  "run s evs = foldl step s evs"

text \<open>
  Requests that fail with status 401 one after the other, each with the cookie string of
  its moment, and nothing else happening in between.
\<close>

definition concurrent_401s :: "(request_config \<times> string) list \<Rightarrow> event list" where
  "concurrent_401s qs = map (\<lambda>q. ResponseError (unauthorized (fst q)) (snd q)) qs"

text \<open>Readings of the effect log.\<close>

definition refresh_calls :: "client \<Rightarrow> string list" where
  "refresh_calls s =
     concat (map (\<lambda>x. case x of RefreshCall t \<Rightarrow> [t] | _ \<Rightarrow> []) (effects s))"

definition requests :: "client \<Rightarrow> request_config list" where
  "requests s =
     concat (map (\<lambda>x. case x of Request c \<Rightarrow> [c] | _ \<Rightarrow> []) (effects s))"

definition rejections :: "client \<Rightarrow> (request_config option \<times> failure) list" where
  "rejections s =
     concat (map (\<lambda>x. case x of Rejected c f \<Rightarrow> [(c, f)] | _ \<Rightarrow> []) (effects s))"

definition authorization :: "request_config \<Rightarrow> string option" where
  "authorization config =
     (case rc_headers config of None \<Rightarrow> None | Some hs \<Rightarrow> map_of hs ''Authorization'')"

section \<open>Properties of the write-back merge\<close>

lemma map_of_set_prop:
  "map_of (set_prop kvs kv) k = (if k = fst kv then Some (snd kv) else map_of kvs k)"
  by (simp add: set_prop_def update_conv)

lemma map_of_object_literal:
  "map_of (own_props (object_literal sp es)) k =
     (case map_of (rev es) k of Some v \<Rightarrow> Some v | None \<Rightarrow> map_of sp k)"
proof (induction es arbitrary: sp)
  case Nil
  show ?case by (simp add: object_literal_def)
next
  case (Cons e es)
  have "map_of (own_props (object_literal sp (e # es))) k
        = map_of (own_props (object_literal (set_prop sp e) es)) k"
    by (simp add: object_literal_def)
  also have "\<dots> = (case map_of (rev es) k of Some v \<Rightarrow> Some v
                     | None \<Rightarrow> map_of (set_prop sp e) k)"
    by (rule Cons.IH)
  finally show ?case
    by (cases e) (auto simp: map_of_set_prop map_add_def split: option.splits)
qed

lemma updatedPatient_total:
  "\<not> nullish raw \<Longrightarrow> \<exists>doc. updatedPatient raw fd = Inr doc"
  by (simp add: updatedPatient_def member_access_def)

lemma updatedPatient_frame:
  assumes "updatedPatient raw fd = Inr doc" and "k \<notin> set edited_keys"
  shows "own_prop doc k = own_prop raw k"
  using assms
  by (auto simp: updatedPatient_def map_of_object_literal edited_keys_def own_prop_def
           split: sum.splits)

lemma merged_maritalStatus_props:
  "own_prop (merged_maritalStatus ms fd) k =
     (if k = ''text'' then Some (JStr (fd_maritalStatus fd)) else own_prop ms k)"
  by (simp add: merged_maritalStatus_def map_of_object_literal own_prop_def)

lemma updatedPatient_edited:
  assumes "updatedPatient raw fd = Inr doc"
  shows "own_prop doc ''telecom'' = Some (JArr (map telecom_json (fd_telecom fd)))"
    and "own_prop doc ''name'' = Some (edited_name fd)"
    and "own_prop doc ''gender'' = Some (JStr (fd_gender fd))"
    and "own_prop doc ''birthDate'' = Some (JStr (fd_birthDate fd))"
    and "own_prop doc ''active'' = Some (JBool (fd_active fd))"
    and "\<exists>ms. member_access raw ''maritalStatus'' = Inr ms
              \<and> own_prop doc ''maritalStatus'' = Some (merged_maritalStatus ms fd)"
  using assms
  by (auto simp: updatedPatient_def map_of_object_literal own_prop_def split: sum.splits)

lemma edited_keys_other:
  "''address'' \<notin> set edited_keys" "''identifier'' \<notin> set edited_keys"
  "''extension'' \<notin> set edited_keys"
  by (simp_all add: edited_keys_def)

text \<open>
  Claim C2 (write-back preservation). For every raw patient resource (any value but
  \<open>null\<close> and \<open>undefined\<close>) and every state of the edit form, the merge of \<open>handleSave\<close>
  produces a document in which every property outside the six keys the form covers, and
  so the address, identifier and extension arrays, is the property of the raw resource,
  present or absent alike; and the telecom array, the name, the gender, the birth date,
  the active flag and the text of the marital status carry the values of the form.
\<close>

theorem write_back_preserves_unedited_fields:
  assumes "\<not> nullish raw"
  shows "\<exists>doc. updatedPatient raw fd = Inr doc
           \<and> (\<forall>k. k \<notin> set edited_keys \<longrightarrow> own_prop doc k = own_prop raw k)
           \<and> own_prop doc ''address'' = own_prop raw ''address''
           \<and> own_prop doc ''identifier'' = own_prop raw ''identifier''
           \<and> own_prop doc ''extension'' = own_prop raw ''extension''
           \<and> own_prop doc ''telecom'' = Some (JArr (map telecom_json (fd_telecom fd)))
           \<and> own_prop doc ''name''
               = Some (JArr [JObj [(''family'', JStr (fd_family fd)),
                                   (''given'', JArr (map JStr (fd_given fd)))]])
           \<and> own_prop doc ''gender'' = Some (JStr (fd_gender fd))
           \<and> own_prop doc ''birthDate'' = Some (JStr (fd_birthDate fd))
           \<and> own_prop doc ''active'' = Some (JBool (fd_active fd))
           \<and> (\<exists>ms. own_prop doc ''maritalStatus'' = Some ms
                    \<and> own_prop ms ''text'' = Some (JStr (fd_maritalStatus fd)))"
proof -
  from assms obtain doc where doc: "updatedPatient raw fd = Inr doc"
    using updatedPatient_total by blast
  have frame: "\<forall>k. k \<notin> set edited_keys \<longrightarrow> own_prop doc k = own_prop raw k"
    using updatedPatient_frame [OF doc] by blast
  from updatedPatient_edited(6) [OF doc] obtain ms0
    where ms0: "own_prop doc ''maritalStatus'' = Some (merged_maritalStatus ms0 fd)"
    by blast
  have ms: "\<exists>ms. own_prop doc ''maritalStatus'' = Some ms
              \<and> own_prop ms ''text'' = Some (JStr (fd_maritalStatus fd))"
    using ms0 by (simp add: merged_maritalStatus_props)
  have name: "own_prop doc ''name''
               = Some (JArr [JObj [(''family'', JStr (fd_family fd)),
                                   (''given'', JArr (map JStr (fd_given fd)))]])"
    using updatedPatient_edited(2) [OF doc] by (simp add: edited_name_def)
  show ?thesis
    using doc frame edited_keys_other updatedPatient_edited(1,3,4,5) [OF doc] name ms
    by blast
qed

theorem write_back_preserves_unedited_fields_witness:
  "\<not> nullish (JObj [(''resourceType'', JStr ''Patient''), (''id'', JStr ''42''),
                     (''gender'', JStr ''male''),
                     (''address'', JArr [JObj [(''city'', JStr ''Pune'')]])])
   \<and> (\<exists>doc. updatedPatient
               (JObj [(''resourceType'', JStr ''Patient''), (''id'', JStr ''42''),
                      (''gender'', JStr ''male''),
                      (''address'', JArr [JObj [(''city'', JStr ''Pune'')]])])
               \<lparr>fd_telecom = [], fd_family = ''Rao'', fd_given = [''Asha''],
                fd_gender = ''female'', fd_birthDate = ''1990-01-01'', fd_active = True,
                fd_maritalStatus = ''Married''\<rparr> = Inr doc
            \<and> own_prop doc ''address'' = Some (JArr [JObj [(''city'', JStr ''Pune'')]])
            \<and> own_prop doc ''identifier'' = None
            \<and> own_prop doc ''gender'' = Some (JStr ''female''))"
proof -
  let ?raw = "JObj [(''resourceType'', JStr ''Patient''), (''id'', JStr ''42''),
                    (''gender'', JStr ''male''),
                    (''address'', JArr [JObj [(''city'', JStr ''Pune'')]])]"
  let ?fd = "\<lparr>fd_telecom = [], fd_family = ''Rao'', fd_given = [''Asha''],
              fd_gender = ''female'', fd_birthDate = ''1990-01-01'', fd_active = True,
              fd_maritalStatus = ''Married''\<rparr>"
  have h: "\<not> nullish ?raw" by (simp add: nullish_def)
  from write_back_preserves_unedited_fields [OF h, of ?fd]
  obtain doc where "updatedPatient ?raw ?fd = Inr doc"
    and "own_prop doc ''address'' = own_prop ?raw ''address''"
    and "own_prop doc ''identifier'' = own_prop ?raw ''identifier''"
    and "own_prop doc ''gender'' = Some (JStr (fd_gender ?fd))"
    by blast
  then show ?thesis using h by (auto simp: own_prop_def)
qed

text \<open>
  Claim C9 (what saving discards and keeps). Whatever the raw resource holds under
  \<open>name\<close>, the saved document's \<open>name\<close> is the one-element array of an object with just
  the form's \<open>family\<close> and \<open>given\<close>: further name entries and further sub-fields of the
  first one are gone. The \<open>maritalStatus\<close> of the saved document keeps every property of
  the raw one, \<open>coding\<close> among them, except \<open>text\<close>, which takes the form's value.
\<close>

theorem save_replaces_name_keeps_coding:
  assumes "\<not> nullish raw"
  shows "\<exists>doc ms ms'. updatedPatient raw fd = Inr doc
           \<and> own_prop doc ''name''
               = Some (JArr [JObj [(''family'', JStr (fd_family fd)),
                                   (''given'', JArr (map JStr (fd_given fd)))]])
           \<and> member_access raw ''maritalStatus'' = Inr ms
           \<and> own_prop doc ''maritalStatus'' = Some ms'
           \<and> own_prop ms' ''coding'' = own_prop ms ''coding''
           \<and> (\<forall>k. k \<noteq> ''text'' \<longrightarrow> own_prop ms' k = own_prop ms k)
           \<and> own_prop ms' ''text'' = Some (JStr (fd_maritalStatus fd))"
proof -
  from assms obtain doc where doc: "updatedPatient raw fd = Inr doc"
    using updatedPatient_total by blast
  from updatedPatient_edited(6) [OF doc] obtain ms
    where ms: "member_access raw ''maritalStatus'' = Inr ms"
      and ms': "own_prop doc ''maritalStatus'' = Some (merged_maritalStatus ms fd)"
    by blast
  have name: "own_prop doc ''name''
               = Some (JArr [JObj [(''family'', JStr (fd_family fd)),
                                   (''given'', JArr (map JStr (fd_given fd)))]])"
    using updatedPatient_edited(2) [OF doc] by (simp add: edited_name_def)
  have "own_prop (merged_maritalStatus ms fd) ''coding'' = own_prop ms ''coding''"
    and "\<forall>k. k \<noteq> ''text'' \<longrightarrow> own_prop (merged_maritalStatus ms fd) k = own_prop ms k"
    and "own_prop (merged_maritalStatus ms fd) ''text'' = Some (JStr (fd_maritalStatus fd))"
    by (simp_all add: merged_maritalStatus_props)
  with doc ms ms' name show ?thesis by blast
qed

theorem save_replaces_name_keeps_coding_witness:
  "\<not> nullish (JObj [(''resourceType'', JStr ''Patient''), (''id'', JStr ''42''),
                     (''name'', JArr [JObj [(''use'', JStr ''official''),
                                            (''family'', JStr ''Rao''),
                                            (''prefix'', JArr [JStr ''Dr'']),
                                            (''given'', JArr [JStr ''Asha''])],
                                      JObj [(''use'', JStr ''nickname''),
                                            (''given'', JArr [JStr ''Ash''])]]),
                     (''maritalStatus'',
                        JObj [(''coding'', JArr [JObj [(''code'', JStr ''S'')]]),
                              (''text'', JStr ''Single'')])])
   \<and> (\<exists>doc ms'. updatedPatient
               (JObj [(''resourceType'', JStr ''Patient''), (''id'', JStr ''42''),
                      (''name'', JArr [JObj [(''use'', JStr ''official''),
                                             (''family'', JStr ''Rao''),
                                             (''prefix'', JArr [JStr ''Dr'']),
                                             (''given'', JArr [JStr ''Asha''])],
                                       JObj [(''use'', JStr ''nickname''),
                                             (''given'', JArr [JStr ''Ash''])]]),
                      (''maritalStatus'',
                         JObj [(''coding'', JArr [JObj [(''code'', JStr ''S'')]]),
                               (''text'', JStr ''Single'')])])
               \<lparr>fd_telecom = [], fd_family = ''Rao'', fd_given = [''Asha''],
                fd_gender = ''female'', fd_birthDate = ''1990-01-01'', fd_active = True,
                fd_maritalStatus = ''Married''\<rparr> = Inr doc
            \<and> own_prop doc ''name''
                = Some (JArr [JObj [(''family'', JStr ''Rao''),
                                    (''given'', JArr [JStr ''Asha''])]])
            \<and> own_prop doc ''maritalStatus'' = Some ms'
            \<and> own_prop ms' ''coding'' = Some (JArr [JObj [(''code'', JStr ''S'')]])
            \<and> own_prop ms' ''text'' = Some (JStr ''Married''))"
proof -
  let ?raw = "JObj [(''resourceType'', JStr ''Patient''), (''id'', JStr ''42''),
                    (''name'', JArr [JObj [(''use'', JStr ''official''),
                                           (''family'', JStr ''Rao''),
                                           (''prefix'', JArr [JStr ''Dr'']),
                                           (''given'', JArr [JStr ''Asha''])],
                                     JObj [(''use'', JStr ''nickname''),
                                           (''given'', JArr [JStr ''Ash''])]]),
                    (''maritalStatus'',
                       JObj [(''coding'', JArr [JObj [(''code'', JStr ''S'')]]),
                             (''text'', JStr ''Single'')])]"
  let ?fd = "\<lparr>fd_telecom = [], fd_family = ''Rao'', fd_given = [''Asha''],
              fd_gender = ''female'', fd_birthDate = ''1990-01-01'', fd_active = True,
              fd_maritalStatus = ''Married''\<rparr>"
  have h: "\<not> nullish ?raw" by (simp add: nullish_def)
  from save_replaces_name_keeps_coding [OF h, of ?fd]
  obtain doc ms ms' where "updatedPatient ?raw ?fd = Inr doc"
    and "own_prop doc ''name''
           = Some (JArr [JObj [(''family'', JStr (fd_family ?fd)),
                               (''given'', JArr (map JStr (fd_given ?fd)))]])"
    and "member_access ?raw ''maritalStatus'' = Inr ms"
    and "own_prop doc ''maritalStatus'' = Some ms'"
    and "own_prop ms' ''coding'' = own_prop ms ''coding''"
    and "own_prop ms' ''text'' = Some (JStr (fd_maritalStatus ?fd))"
    by blast
  then show ?thesis using h
    by (auto simp: own_prop_def member_access_def nullish_def)
qed

section \<open>Properties of the flattened views\<close>

lemma telecom_json_no_nullish: "\<not> has_nullish (telecom_json t)"
  by (simp add: telecom_json_def optional_entry_def split: option.splits)

lemma address_json_no_nullish: "\<not> has_nullish (address_json a)"
  by (auto simp: address_json_def optional_entry_def list_ex_iff split: option.splits)

lemma name_view_no_nullish: "\<not> has_nullish (name_view nm)"
  by (simp add: name_view_def list_ex_iff)

lemma formatted_no_nullish: "\<not> has_nullish (formatted p)"
  by (simp add: formatted_def name_view_no_nullish list_ex_iff
        telecom_json_no_nullish address_json_no_nullish)

text \<open>
  Claim C4 (fallback completeness). For a patient resource with every optional field
  absent, whatever its resource type and id, the \<open>formatted\<close> object of the get and update
  routes is exactly the object of the documented fallbacks, and neither \<open>null\<close> nor
  \<open>undefined\<close> occurs anywhere in it.
\<close>

theorem fallback_completeness:
  "formatted (bare_patient rtype pid)
     = JObj [(''identifier'', JStr ''N/A''),
             (''name'', JObj [(''family'', JStr ''Unknown''),
                              (''given'', JArr [JStr ''Unknown'']),
                              (''full'', JStr ''Unknown Unknown'')]),
             (''gender'', JStr ''unknown''),
             (''birthDate'', JStr ''Unknown''),
             (''active'', JBool False),
             (''deceased'', JBool False),
             (''maritalStatus'', JStr ''Unknown''),
             (''lastUpdated'', JStr ''Unknown''),
             (''telecom'', JArr []),
             (''address'', JArr []),
             (''ethnicity'', JStr ''Unspecified'')]
   \<and> tp_formatted (transform_patient (bare_patient rtype pid))
       = formatted (bare_patient rtype pid)
   \<and> \<not> has_nullish (formatted (bare_patient rtype pid))"
proof -
  have "formatted (bare_patient rtype pid)
     = JObj [(''identifier'', JStr ''N/A''),
             (''name'', JObj [(''family'', JStr ''Unknown''),
                              (''given'', JArr [JStr ''Unknown'']),
                              (''full'', JStr ''Unknown Unknown'')]),
             (''gender'', JStr ''unknown''),
             (''birthDate'', JStr ''Unknown''),
             (''active'', JBool False),
             (''deceased'', JBool False),
             (''maritalStatus'', JStr ''Unknown''),
             (''lastUpdated'', JStr ''Unknown''),
             (''telecom'', JArr []),
             (''address'', JArr []),
             (''ethnicity'', JStr ''Unspecified'')]"
    by (simp add: formatted_def bare_patient_def name_view_def ethnicity_def or_else_def
          nullish_or_def first_def chain_def chain_find_def)
  moreover have "tp_formatted (transform_patient (bare_patient rtype pid))
       = formatted (bare_patient rtype pid)"
    by (simp add: transform_patient_def)
  ultimately show ?thesis using formatted_no_nullish by blast
qed

theorem fallback_completeness_witness:
  "own_prop (formatted (bare_patient ''Patient'' ''42'')) ''identifier'' = Some (JStr ''N/A'')
   \<and> own_prop (formatted (bare_patient ''Patient'' ''42'')) ''ethnicity''
       = Some (JStr ''Unspecified'')
   \<and> \<not> has_nullish (formatted (bare_patient ''Patient'' ''42''))"
  using fallback_completeness [of "''Patient''" "''42''"]
  by (simp add: own_prop_def)

lemma patient_entry_keys:
  "map fst (own_props (patient_entry entry))
     = [''id'', ''fullUrl'', ''identifier'', ''name'', ''gender'', ''birthDate'', ''active'',
        ''maritalStatus'', ''lastUpdated'']"
  by (simp add: patient_entry_def Let_def)

lemma patient_entry_fullUrl:
  "own_prop (patient_entry entry) ''fullUrl'' = Some (opt_json (e_fullUrl entry))"
  by (simp add: patient_entry_def Let_def own_prop_def)

lemma patient_entry_others:
  assumes "own_prop (patient_entry entry) k = Some v" and "k \<noteq> ''fullUrl''"
  shows "\<not> has_nullish v"
  using assms
  by (auto simp: patient_entry_def Let_def own_prop_def name_view_no_nullish
           split: if_splits)

text \<open>
  Claim C10 (the list entry's one field without a fallback). The \<open>patients\<close> of the list
  route are the images of the bundle's entries. In the image of an entry the property
  \<open>fullUrl\<close> is the entry's own \<open>fullUrl\<close> as it stands, \<open>undefined\<close> when the entry has
  none, while no other property holds or contains \<open>null\<close> or \<open>undefined\<close>.
\<close>

theorem list_entry_fullUrl_has_no_fallback:
  "td_patients (transform_bundle page \<lparr>b_total = t, b_entry = Some entries, b_link = ls\<rparr>)
     = map patient_entry entries
   \<and> own_prop (patient_entry entry) ''fullUrl'' = Some (opt_json (e_fullUrl entry))
   \<and> (e_fullUrl entry = None \<longrightarrow> own_prop (patient_entry entry) ''fullUrl'' = Some JUndefined)
   \<and> (\<forall>u. e_fullUrl entry = Some u \<longrightarrow> own_prop (patient_entry entry) ''fullUrl'' = Some (JStr u))
   \<and> (\<forall>k v. own_prop (patient_entry entry) k = Some v \<and> k \<noteq> ''fullUrl''
              \<longrightarrow> \<not> has_nullish v)
   \<and> map fst (own_props (patient_entry entry))
       = [''id'', ''fullUrl'', ''identifier'', ''name'', ''gender'', ''birthDate'', ''active'',
          ''maritalStatus'', ''lastUpdated'']"
proof -
  have "td_patients (transform_bundle page \<lparr>b_total = t, b_entry = Some entries, b_link = ls\<rparr>)
          = map patient_entry entries"
    by (simp add: transform_bundle_def nullish_or_def)
  moreover have "e_fullUrl entry = None \<longrightarrow>
      own_prop (patient_entry entry) ''fullUrl'' = Some JUndefined"
    by (simp add: patient_entry_fullUrl opt_json_def)
  moreover have "\<forall>u. e_fullUrl entry = Some u \<longrightarrow>
      own_prop (patient_entry entry) ''fullUrl'' = Some (JStr u)"
    by (simp add: patient_entry_fullUrl opt_json_def)
  ultimately show ?thesis
    using patient_entry_fullUrl patient_entry_others patient_entry_keys by blast
qed

theorem list_entry_fullUrl_has_no_fallback_witness:
  "own_prop (patient_entry
       \<lparr>e_fullUrl = None,
        e_resource = \<lparr>er_id = Some ''253267'', er_identifier = None, er_name = None,
                      er_gender = Some ''female'', er_birthDate = None, er_active = None,
                      er_maritalStatus = None, er_meta = None\<rparr>\<rparr>) ''fullUrl''
     = Some JUndefined
   \<and> own_prop (patient_entry
       \<lparr>e_fullUrl = None,
        e_resource = \<lparr>er_id = Some ''253267'', er_identifier = None, er_name = None,
                      er_gender = Some ''female'', er_birthDate = None, er_active = None,
                      er_maritalStatus = None, er_meta = None\<rparr>\<rparr>) ''gender''
     = Some (JStr ''female'')
   \<and> \<not> has_nullish (JStr ''female'')"
proof -
  let ?entry = "\<lparr>e_fullUrl = None,
        e_resource = \<lparr>er_id = Some ''253267'', er_identifier = None, er_name = None,
                      er_gender = Some ''female'', er_birthDate = None, er_active = None,
                      er_maritalStatus = None, er_meta = None\<rparr>\<rparr>"
  have g: "own_prop (patient_entry ?entry) ''gender'' = Some (JStr ''female'')"
    by (simp add: patient_entry_def Let_def own_prop_def or_else_def)
  from list_entry_fullUrl_has_no_fallback [of "''1''" None "[]" None ?entry]
  have "own_prop (patient_entry ?entry) ''fullUrl'' = Some JUndefined"
    and "\<not> has_nullish (JStr ''female'')"
    using g by auto
  with g show ?thesis by blast
qed


section \<open>Properties of the list route's pagination\<close>

lemma find_link_iff:
  "(\<exists>link. find_link data rel = Some link)
     = (\<exists>link \<in> set (nullish_or (b_link data) []). k_relation link = rel)"
proof (cases "b_link data")
  case None
  then show ?thesis by (simp add: find_link_def chain_find_def nullish_or_def)
next
  case (Some ls)
  have "(\<exists>link. find (\<lambda>link. k_relation link = rel) ls = Some link)
          = (\<exists>link \<in> set ls. k_relation link = rel)"
    using find_None_iff [of "\<lambda>link. k_relation link = rel" ls] by auto
  with Some show ?thesis by (simp add: find_link_def chain_find_def nullish_or_def)
qed

text \<open>
  Claim C5, as the code has it (pagination from the links). For every bundle and page,
  \<open>hasNext\<close> is true exactly when the bundle's link array holds a link of relation
  \<open>next\<close>, and \<open>hasPrev\<close> exactly when it holds one of relation \<open>prev\<close>; the total and the
  entries play no part. A bundle whose only link is a \<open>next\<close> link has \<open>hasNext\<close> true
  and \<open>hasPrev\<close> false.
\<close>

theorem pagination_follows_links:
  "hasNext (td_pagination (transform_bundle page data))
     = (\<exists>link \<in> set (nullish_or (b_link data) []). k_relation link = ''next'')
   \<and> hasPrev (td_pagination (transform_bundle page data))
     = (\<exists>link \<in> set (nullish_or (b_link data) []). k_relation link = ''prev'')
   \<and> hasNext (td_pagination (transform_bundle page
        \<lparr>b_total = t, b_entry = es, b_link = Some [\<lparr>k_relation = ''next'', k_url = u\<rparr>]\<rparr>))
   \<and> \<not> hasPrev (td_pagination (transform_bundle page
        \<lparr>b_total = t, b_entry = es, b_link = Some [\<lparr>k_relation = ''next'', k_url = u\<rparr>]\<rparr>))"
proof -
  have "hasNext (td_pagination (transform_bundle page d))
          = (\<exists>link \<in> set (nullish_or (b_link d) []). k_relation link = ''next'')"
    and "hasPrev (td_pagination (transform_bundle page d))
          = (\<exists>link \<in> set (nullish_or (b_link d) []). k_relation link = ''prev'')" for d
    by (simp_all add: transform_bundle_def find_link_iff)
  then show ?thesis by (simp add: nullish_or_def)
qed

theorem pagination_follows_links_witness:
  "hasPrev (td_pagination (transform_bundle ''2''
      \<lparr>b_total = Some 50, b_entry = None,
       b_link = Some [\<lparr>k_relation = ''self'', k_url = ''https://ehr.example/Patient?page=2''\<rparr>,
                      \<lparr>k_relation = ''prev'', k_url = ''https://ehr.example/Patient?page=1''\<rparr>]\<rparr>))
   \<and> \<not> hasNext (td_pagination (transform_bundle ''2''
      \<lparr>b_total = Some 50, b_entry = None,
       b_link = Some [\<lparr>k_relation = ''self'', k_url = ''https://ehr.example/Patient?page=2''\<rparr>,
                      \<lparr>k_relation = ''prev'', k_url = ''https://ehr.example/Patient?page=1''\<rparr>]\<rparr>))"
  using pagination_follows_links [of "''2''"
      "\<lparr>b_total = Some 50, b_entry = None,
       b_link = Some [\<lparr>k_relation = ''self'', k_url = ''https://ehr.example/Patient?page=2''\<rparr>,
                      \<lparr>k_relation = ''prev'', k_url = ''https://ehr.example/Patient?page=1''\<rparr>]\<rparr>"]
  by (simp add: nullish_or_def)

text \<open>
  Claim C5 as stated fails: a bundle that holds a link of relation \<open>previous\<close> (and no
  link of relation \<open>prev\<close>) gets \<open>hasPrev\<close> false.
\<close>

theorem previous_link_is_not_seen:
  "\<not> hasPrev (td_pagination (transform_bundle ''2''
      \<lparr>b_total = Some 50, b_entry = None,
       b_link = Some [\<lparr>k_relation = ''previous'',
                       k_url = ''https://ehr.example/Patient?page=1''\<rparr>]\<rparr>))"
  by (simp add: transform_bundle_def find_link_def chain_find_def)


section \<open>Properties of the login route\<close>

lemma string_min1_absent_or_empty:
  "absent_or_empty v \<Longrightarrow> string_min1 path msg v \<noteq> []"
  by (auto simp: absent_or_empty_def string_min1_def)

lemma loginSchema_rejects:
  assumes "absent_or_empty username \<or> absent_or_empty password"
  shows "\<exists>issues. issues \<noteq> [] \<and> loginSchema username password = Inl issues"
  using assms string_min1_absent_or_empty
  by (auto simp: loginSchema_def Let_def)

text \<open>
  Claim C6 (login input validation). For every login form in which the username or the
  password is missing or empty, whatever the environment and whatever the remote API
  would answer, the login route returns status 400 with a non-empty list of validation
  issues and makes no call to the remote grant endpoint.
\<close>

theorem login_rejects_empty_credentials:
  assumes "absent_or_empty (map_of formData ''username'')
           \<or> absent_or_empty (map_of formData ''password'')"
  shows "snd (POST_login e (Some formData) remote) = []
         \<and> rsp_status (fst (POST_login e (Some formData) remote)) = 400
         \<and> (\<exists>issues. issues \<noteq> []
               \<and> rsp_body (fst (POST_login e (Some formData) remote))
                   = ErrorIssues ''Invalid input data'' issues)"
proof -
  from loginSchema_rejects [OF assms] obtain issues
    where "issues \<noteq> []"
      and "loginSchema (map_of formData ''username'') (map_of formData ''password'') = Inl issues"
    by blast
  then show ?thesis by (simp add: POST_login_def json_response_def)
qed

theorem login_rejects_empty_credentials_witness:
  "absent_or_empty (map_of [(''username'', FString ''alice''), (''password'', FString [])]
                      ''password'')
   \<and> snd (POST_login
            \<lparr>NEXT_BASE_URL = ''https://ehr.example'', NEXT_FIRM_URL_PREFIX = ''firm'',
             NEXT_API_KEY = ''key'', NODE_ENV = Some ''production''\<rparr>
            (Some [(''username'', FString ''alice''), (''password'', FString [])])
            (AxiosOk (JObj [(''access_token'', JStr ''a1''), (''refresh_token'', JStr ''r1'')])))
       = []
   \<and> rsp_status (fst (POST_login
            \<lparr>NEXT_BASE_URL = ''https://ehr.example'', NEXT_FIRM_URL_PREFIX = ''firm'',
             NEXT_API_KEY = ''key'', NODE_ENV = Some ''production''\<rparr>
            (Some [(''username'', FString ''alice''), (''password'', FString [])])
            (AxiosOk (JObj [(''access_token'', JStr ''a1''), (''refresh_token'', JStr ''r1'')]))))
       = 400"
proof -
  let ?form = "[(''username'', FString ''alice''), (''password'', FString [])]"
  have h: "absent_or_empty (map_of ?form ''password'')"
    by (simp add: absent_or_empty_def)
  then have "absent_or_empty (map_of ?form ''username'')
             \<or> absent_or_empty (map_of ?form ''password'')" ..
  from login_rejects_empty_credentials [OF this] h show ?thesis by blast
qed

lemma loginSchema_accepts:
  assumes "loginSchema username password = Inr (u, p)"
  shows "username = Some (FString u) \<and> password = Some (FString p) \<and> u \<noteq> [] \<and> p \<noteq> []"
  using assms
  by (auto simp: loginSchema_def Let_def string_min1_def field_string_def
           split: option.splits form_value.splits if_splits)

text \<open>
  Claim C8, as the code has it (login cookie policy). For every login whose form passes
  validation and whose grant call succeeds with some data, the route answers 200 with
  that data as the body and sets exactly two cookies, \<open>access_token\<close> and
  \<open>refresh_token\<close>, holding the data's two tokens, each HTTP-only and same-site strict,
  with max-ages of 3600 and 604800 seconds; each is secure exactly when \<open>NODE_ENV\<close> is
  \<open>production\<close>. One call goes out, the password grant with the form's credentials.
\<close>

theorem login_cookie_policy:
  assumes "loginSchema (map_of formData ''username'') (map_of formData ''password'') = Inr (u, p)"
      and "\<not> nullish data"
  shows "\<exists>res call access refresh.
           POST_login e (Some formData) (AxiosOk data) = (res, [call])
           \<and> rsp_status res = 200
           \<and> rsp_body res = RawBody data
           \<and> member_access data ''access_token'' = Inr access
           \<and> member_access data ''refresh_token'' = Inr refresh
           \<and> map ck_name (rsp_cookies res) = [''access_token'', ''refresh_token'']
           \<and> map ck_value (rsp_cookies res) = [access, refresh]
           \<and> map ck_httpOnly (rsp_cookies res) = [True, True]
           \<and> map ck_sameSite (rsp_cookies res) = [''strict'', ''strict'']
           \<and> map ck_secure (rsp_cookies res)
               = [NODE_ENV e = Some ''production'', NODE_ENV e = Some ''production'']
           \<and> map ck_maxAge (rsp_cookies res) = [3600, 604800]
           \<and> o_url call = grant_url e
           \<and> o_body call = FormBody [(''grant_type'', ''password''), (''username'', u),
                                      (''password'', p)]"
  using assms
  by (simp add: POST_login_def member_access_def login_cookie_def)

theorem login_cookie_policy_witness:
  "loginSchema (map_of [(''username'', FString ''alice''), (''password'', FString ''pw'')] ''username'')
               (map_of [(''username'', FString ''alice''), (''password'', FString ''pw'')] ''password'')
     = Inr (''alice'', ''pw'')
   \<and> \<not> nullish (JObj [(''access_token'', JStr ''a1''), (''refresh_token'', JStr ''r1'')])
   \<and> map ck_secure (rsp_cookies (fst (POST_login
          \<lparr>NEXT_BASE_URL = ''https://ehr.example'', NEXT_FIRM_URL_PREFIX = ''firm'',
           NEXT_API_KEY = ''key'', NODE_ENV = Some ''production''\<rparr>
          (Some [(''username'', FString ''alice''), (''password'', FString ''pw'')])
          (AxiosOk (JObj [(''access_token'', JStr ''a1''), (''refresh_token'', JStr ''r1'')])))))
      = [True, True]
   \<and> map ck_value (rsp_cookies (fst (POST_login
          \<lparr>NEXT_BASE_URL = ''https://ehr.example'', NEXT_FIRM_URL_PREFIX = ''firm'',
           NEXT_API_KEY = ''key'', NODE_ENV = Some ''production''\<rparr>
          (Some [(''username'', FString ''alice''), (''password'', FString ''pw'')])
          (AxiosOk (JObj [(''access_token'', JStr ''a1''), (''refresh_token'', JStr ''r1'')])))))
      = [JStr ''a1'', JStr ''r1'']"
proof -
  let ?form = "[(''username'', FString ''alice''), (''password'', FString ''pw'')]"
  let ?data = "JObj [(''access_token'', JStr ''a1''), (''refresh_token'', JStr ''r1'')]"
  let ?e = "\<lparr>NEXT_BASE_URL = ''https://ehr.example'', NEXT_FIRM_URL_PREFIX = ''firm'',
             NEXT_API_KEY = ''key'', NODE_ENV = Some ''production''\<rparr>"
  have h1: "loginSchema (map_of ?form ''username'') (map_of ?form ''password'')
              = Inr (''alice'', ''pw'')"
    by (simp add: loginSchema_def string_min1_def field_string_def)
  have h2: "\<not> nullish ?data" by (simp add: nullish_def)
  from login_cookie_policy [OF h1 h2, of ?e]
  obtain res call access refresh where
    "POST_login ?e (Some ?form) (AxiosOk ?data) = (res, [call])"
    "member_access ?data ''access_token'' = Inr access"
    "member_access ?data ''refresh_token'' = Inr refresh"
    "map ck_value (rsp_cookies res) = [access, refresh]"
    "map ck_secure (rsp_cookies res)
       = [NODE_ENV ?e = Some ''production'', NODE_ENV ?e = Some ''production'']"
    by (elim exE conjE) (rule that, assumption+)
  then show ?thesis using h1 h2
    by (auto simp: member_access_def nullish_def own_prop_def)
qed

text \<open>
  Claim C8 as stated fails: outside production a successful login sets both cookies
  without the secure flag.
\<close>

theorem login_cookies_not_secure_in_development:
  "map ck_secure (rsp_cookies (fst (POST_login
       \<lparr>NEXT_BASE_URL = ''https://ehr.example'', NEXT_FIRM_URL_PREFIX = ''firm'',
        NEXT_API_KEY = ''key'', NODE_ENV = Some ''development''\<rparr>
       (Some [(''username'', FString ''alice''), (''password'', FString ''pw'')])
       (AxiosOk (JObj [(''access_token'', JStr ''a1''), (''refresh_token'', JStr ''r1'')])))))
     = [False, False]
   \<and> rsp_status (fst (POST_login
       \<lparr>NEXT_BASE_URL = ''https://ehr.example'', NEXT_FIRM_URL_PREFIX = ''firm'',
        NEXT_API_KEY = ''key'', NODE_ENV = Some ''development''\<rparr>
       (Some [(''username'', FString ''alice''), (''password'', FString ''pw'')])
       (AxiosOk (JObj [(''access_token'', JStr ''a1''), (''refresh_token'', JStr ''r1'')]))))
     = 200"
  by (simp add: POST_login_def loginSchema_def string_min1_def field_string_def
        member_access_def nullish_def own_prop_def login_cookie_def)


section \<open>Properties of the update route\<close>

lemma PUT_patient_calls_only_on_match:
  assumes "member_access body ''id'' \<noteq> Inr (JStr pid)"
  shows "snd (PUT_patient e pid accessToken (Some body) remote) = []"
  using assms
  by (auto simp: PUT_patient_def json_response_def internal_error_def
           split: sum.splits)

text \<open>
  Claim C7, as the code has it (update id check). For every PUT request with a parsed
  body: whenever the body's \<open>id\<close> is not the path id, no call is made to the remote API;
  when moreover the path id is not empty, an access-token cookie is present and the
  body's \<open>resourceType\<close> and \<open>id\<close> are both truthy, the answer is the 400 id-mismatch
  error. When under the same conditions the body's \<open>id\<close> is the path id, exactly one
  call is made, a PUT of that very body to the remote patient path of that id.
\<close>

theorem put_id_check:
  "(member_access body ''id'' \<noteq> Inr (JStr pid)
      \<longrightarrow> snd (PUT_patient e pid accessToken (Some body) remote) = [])
   \<and> (pid \<noteq> [] \<and> \<not> missing accessToken
        \<and> member_access body ''resourceType'' = Inr rtype \<and> truthy rtype
        \<and> member_access body ''id'' = Inr bid \<and> truthy bid \<and> bid \<noteq> JStr pid
      \<longrightarrow> PUT_patient e pid accessToken (Some body) remote
           = (json_response
                (ErrorBody ''Patient ID in URL does not match ID in request body'') 400, []))
   \<and> (pid \<noteq> [] \<and> \<not> missing accessToken
        \<and> member_access body ''resourceType'' = Inr rtype \<and> truthy rtype
        \<and> member_access body ''id'' = Inr (JStr pid)
      \<longrightarrow> (\<exists>call. snd (PUT_patient e pid accessToken (Some body) remote) = [call]
             \<and> o_method call = ''PUT''
             \<and> o_url call = patient_url e @ ''/'' @ pid
             \<and> o_body call = JsonBody body))"
proof -
  have "pid \<noteq> [] \<and> \<not> missing accessToken
        \<and> member_access body ''resourceType'' = Inr rtype \<and> truthy rtype
        \<and> member_access body ''id'' = Inr bid \<and> truthy bid \<and> bid \<noteq> JStr pid
      \<longrightarrow> PUT_patient e pid accessToken (Some body) remote
           = (json_response
                (ErrorBody ''Patient ID in URL does not match ID in request body'') 400, [])"
    by (simp add: PUT_patient_def)
  moreover have "pid \<noteq> [] \<and> \<not> missing accessToken
        \<and> member_access body ''resourceType'' = Inr rtype \<and> truthy rtype
        \<and> member_access body ''id'' = Inr (JStr pid)
      \<longrightarrow> (\<exists>call. snd (PUT_patient e pid accessToken (Some body) remote) = [call]
             \<and> o_method call = ''PUT''
             \<and> o_url call = patient_url e @ ''/'' @ pid
             \<and> o_body call = JsonBody body)"
    by (auto simp: PUT_patient_def Let_def split: fetch_result.splits option.splits)
  ultimately show ?thesis using PUT_patient_calls_only_on_match by blast
qed

theorem put_id_check_witness:
  "PUT_patient
      \<lparr>NEXT_BASE_URL = ''https://ehr.example'', NEXT_FIRM_URL_PREFIX = ''firm'',
       NEXT_API_KEY = ''key'', NODE_ENV = Some ''production''\<rparr>
      ''42'' (Some ''a1'')
      (Some (JObj [(''resourceType'', JStr ''Patient''), (''id'', JStr ''43'')]))
      (FetchThrows TypeError)
     = (json_response
          (ErrorBody ''Patient ID in URL does not match ID in request body'') 400, [])
   \<and> (\<exists>call. snd (PUT_patient
      \<lparr>NEXT_BASE_URL = ''https://ehr.example'', NEXT_FIRM_URL_PREFIX = ''firm'',
       NEXT_API_KEY = ''key'', NODE_ENV = Some ''production''\<rparr>
      ''42'' (Some ''a1'')
      (Some (JObj [(''resourceType'', JStr ''Patient''), (''id'', JStr ''42'')]))
      (FetchThrows TypeError)) = [call]
     \<and> o_url call = ''https://ehr.example/firm/ema/fhir/v2/Patient/42''
     \<and> o_body call = JsonBody (JObj [(''resourceType'', JStr ''Patient''), (''id'', JStr ''42'')]))"
proof -
  let ?e = "\<lparr>NEXT_BASE_URL = ''https://ehr.example'', NEXT_FIRM_URL_PREFIX = ''firm'',
       NEXT_API_KEY = ''key'', NODE_ENV = Some ''production''\<rparr>"
  let ?b43 = "JObj [(''resourceType'', JStr ''Patient''), (''id'', JStr ''43'')]"
  let ?b42 = "JObj [(''resourceType'', JStr ''Patient''), (''id'', JStr ''42'')]"
  have pre43: "''42'' \<noteq> [] \<and> \<not> missing (Some ''a1'')
        \<and> member_access ?b43 ''resourceType'' = Inr (JStr ''Patient'') \<and> truthy (JStr ''Patient'')
        \<and> member_access ?b43 ''id'' = Inr (JStr ''43'') \<and> truthy (JStr ''43'')
        \<and> JStr ''43'' \<noteq> JStr ''42''"
    by (simp add: missing_def member_access_def nullish_def own_prop_def)
  have pre42: "''42'' \<noteq> [] \<and> \<not> missing (Some ''a1'')
        \<and> member_access ?b42 ''resourceType'' = Inr (JStr ''Patient'') \<and> truthy (JStr ''Patient'')
        \<and> member_access ?b42 ''id'' = Inr (JStr ''42'')"
    by (simp add: missing_def member_access_def nullish_def own_prop_def)
  have a: "PUT_patient ?e ''42'' (Some ''a1'') (Some ?b43) (FetchThrows TypeError)
     = (json_response
          (ErrorBody ''Patient ID in URL does not match ID in request body'') 400, [])"
    using put_id_check [of ?b43 "''42''" ?e "Some ''a1''" "FetchThrows TypeError"
                           "JStr ''Patient''" "JStr ''43''"] pre43
    by blast
  have b: "\<exists>call. snd (PUT_patient ?e ''42'' (Some ''a1'') (Some ?b42) (FetchThrows TypeError))
              = [call]
     \<and> o_method call = ''PUT''
     \<and> o_url call = patient_url ?e @ ''/'' @ ''42''
     \<and> o_body call = JsonBody ?b42"
    using put_id_check [of ?b42 "''42''" ?e "Some ''a1''" "FetchThrows TypeError"
                           "JStr ''Patient''" "JStr ''42''"] pre42
    by blast
  from a b show ?thesis by (auto simp: patient_url_def)
qed

text \<open>
  Claim C7 as stated fails: a PUT whose body carries another id than the path, sent
  without an access-token cookie, is answered 401, not with the 400 id-mismatch error.
\<close>

theorem put_mismatch_without_token_is_401:
  "PUT_patient
      \<lparr>NEXT_BASE_URL = ''https://ehr.example'', NEXT_FIRM_URL_PREFIX = ''firm'',
       NEXT_API_KEY = ''key'', NODE_ENV = Some ''production''\<rparr>
      ''42'' None
      (Some (JObj [(''resourceType'', JStr ''Patient''), (''id'', JStr ''43'')]))
      (FetchThrows TypeError)
     = (json_response (ErrorBody ''Unauthorized - No access token found'') 401, [])"
  by (simp add: PUT_patient_def missing_def)

lemma put_mismatch_without_resourceType:
  "PUT_patient
      \<lparr>NEXT_BASE_URL = ''https://ehr.example'', NEXT_FIRM_URL_PREFIX = ''firm'',
       NEXT_API_KEY = ''key'', NODE_ENV = Some ''production''\<rparr>
      ''42'' (Some ''a1'')
      (Some (JObj [(''id'', JStr ''43'')]))
      (FetchThrows TypeError)
     = (json_response
          (ErrorBody ''Invalid patient data - resourceType and id are required'') 400, [])"
  by (simp add: PUT_patient_def missing_def member_access_def nullish_def own_prop_def)


section \<open>Properties of the session client\<close>

lemma step_keeps_single_flight:
  assumes "length (awaiting s) = (if isRefreshing s then 1 else 0)"
  shows "length (awaiting (step s ev)) = (if isRefreshing (step s ev) then 1 else 0)"
proof (cases ev)
  case (ResponseError error doc)
  with assms show ?thesis
    by (auto simp: on_response_error_def pass_on_def Let_def split: option.splits if_splits)
next
  case (RefreshResolved i data)
  with assms show ?thesis
    by (auto simp: resume_def refresh_failed_def refresh_succeeded_def
             split: option.splits if_splits)
next
  case (RefreshRejected i refreshError)
  with assms show ?thesis
    by (auto simp: resume_def refresh_failed_def split: if_splits)
qed

lemma run_keeps_single_flight:
  assumes "length (awaiting s) = (if isRefreshing s then 1 else 0)"
  shows "length (awaiting (run s evs)) = (if isRefreshing (run s evs) then 1 else 0)"
  using assms
proof (induction evs arbitrary: s)
  case Nil
  then show ?case by (simp add: run_def)
next
  case (Cons ev evs)
  have "run s (ev # evs) = run (step s ev) evs" by (simp add: run_def)
  with Cons.IH [OF step_keeps_single_flight [OF Cons.prems]] show ?case by simp
qed

lemma in_flight_at_most_one: "length (awaiting (run (init_client w) evs)) \<le> 1"
  using run_keeps_single_flight [of "init_client w" evs]
  by (simp add: init_client_def split: if_splits)

lemma run_append: "run s (evs @ evs') = run (run s evs) evs'"
  by (simp add: run_def)

lemma first_401_starts_refresh:
  assumes "\<not> isRefreshing s" and "\<not> rc_retry r"
      and "stored_refresh_token (window s) doc = Some rt" and "rt \<noteq> []"
  shows "step s (ResponseError (unauthorized r) doc)
           = s\<lparr>isRefreshing := True, awaiting := awaiting s @ [r\<lparr>rc_retry := True\<rparr>],
                effects := effects s @ [RefreshCall rt]\<rparr>"
  using assms
  by (simp add: on_response_error_def unauthorized_def Let_def missing_def template_def)

lemma later_401s_are_queued:
  assumes "isRefreshing s" and "\<forall>c \<in> set (map fst qs). \<not> rc_retry c"
  shows "run s (concurrent_401s qs) = s\<lparr>failedQueue := failedQueue s @ map fst qs\<rparr>"
  using assms
proof (induction qs arbitrary: s)
  case Nil
  then show ?case by (simp add: run_def concurrent_401s_def)
next
  case (Cons q qs)
  let ?s = "s\<lparr>failedQueue := failedQueue s @ [fst q]\<rparr>"
  have one: "step s (ResponseError (unauthorized (fst q)) (snd q)) = ?s"
    using Cons.prems by (simp add: on_response_error_def unauthorized_def)
  have "run s (concurrent_401s (q # qs)) = run ?s (concurrent_401s qs)"
    using one by (simp add: run_def concurrent_401s_def)
  also have "\<dots> = ?s\<lparr>failedQueue := failedQueue ?s @ map fst qs\<rparr>"
    using Cons.prems by (intro Cons.IH) simp_all
  finally show ?case by simp
qed

lemma processQueue_resolves:
  assumes "tok \<noteq> []"
  shows "processQueue None (Some tok) queue = map (\<lambda>c. Request (set_authorization (Some tok) c)) queue"
  using assms by (induction queue) (simp_all add: processQueue_def missing_def)

lemma authorization_set:
  "rc_headers c \<noteq> None \<Longrightarrow> authorization (set_authorization (Some tok) c) = Some (''Bearer '' @ tok)"
  by (auto simp: authorization_def set_authorization_def bearer_def template_def update_conv)

lemma requests_of_Requests:
  "concat (map ((\<lambda>x. case x of Request c \<Rightarrow> [c] | _ \<Rightarrow> []) \<circ> (\<lambda>c. Request (f c))) cs)
     = map f cs"
  by (induction cs) simp_all

lemma refresh_calls_of_Requests:
  "concat (map ((\<lambda>x. case x of RefreshCall t \<Rightarrow> [t] | _ \<Rightarrow> []) \<circ> (\<lambda>c. Request (f c))) cs)
     = []"
  by (induction cs) simp_all

lemma rejections_of_Requests:
  "concat (map ((\<lambda>x. case x of Rejected c f \<Rightarrow> [(c, f)] | _ \<Rightarrow> []) \<circ> (\<lambda>c. Request (g c))) cs)
     = []"
  by (induction cs) simp_all

lemma concurrent_401s_state:
  assumes "\<forall>c \<in> set (map fst (q # qs)). \<not> rc_retry c"
      and "stored_refresh_token True (snd q) = Some rt" and "rt \<noteq> []"
  shows "run (init_client True) (concurrent_401s (q # qs))
           = \<lparr>window = True, isRefreshing = True, failedQueue = map fst qs,
              awaiting = [(fst q)\<lparr>rc_retry := True\<rparr>], effects = [RefreshCall rt]\<rparr>"
proof -
  let ?s1 = "\<lparr>window = True, isRefreshing = True, failedQueue = [],
              awaiting = [(fst q)\<lparr>rc_retry := True\<rparr>], effects = [RefreshCall rt]\<rparr>"
  have "step (init_client True) (ResponseError (unauthorized (fst q)) (snd q)) = ?s1"
    using assms by (subst first_401_starts_refresh [where rt = rt]) (simp_all add: init_client_def)
  then have "run (init_client True) (concurrent_401s (q # qs)) = run ?s1 (concurrent_401s qs)"
    by (simp add: run_def concurrent_401s_def)
  also have "\<dots> = ?s1\<lparr>failedQueue := failedQueue ?s1 @ map fst qs\<rparr>"
    using assms(1) by (intro later_401s_are_queued) simp_all
  finally show ?thesis by simp
qed

lemma refresh_resolved_state:
  assumes "g_access_token d = Some tok" and "tok \<noteq> []"
  shows "step \<lparr>window = True, isRefreshing = True, failedQueue = queue,
               awaiting = [r], effects = [RefreshCall rt]\<rparr> (RefreshResolved 0 (Some d))
           = \<lparr>window = True, isRefreshing = False, failedQueue = [], awaiting = [],
              effects = RefreshCall rt # store_cookies d
                        @ map (\<lambda>c. Request (set_authorization (Some tok) c)) (r # queue)\<rparr>"
  using assms
  by (simp add: resume_def refresh_succeeded_def processQueue_resolves)

text \<open>
  Claim C1, as the code has it (single-flight refresh). Whatever events reach the
  client, in whatever order, at most one refresh call is in flight at any moment. When
  in a browser one or more requests not yet retried fail with 401 one after the other,
  starting with no refresh in flight, and the first of them finds a non-empty refresh
  token in the cookies, then exactly one refresh call is issued, with that token, and
  every later request is put on the queue, in order. When that refresh then succeeds
  with a non-empty access token, every one of the requests is sent again, each with the
  \<open>Authorization\<close> header of that one new token (where it has headers at all), none is
  rejected, no further refresh call is issued, and the client is idle with an empty
  queue.
\<close>

theorem single_flight_refresh:
  assumes "\<forall>c \<in> set (map fst (q # qs)). \<not> rc_retry c"
      and "stored_refresh_token True (snd q) = Some rt" and "rt \<noteq> []"
      and "g_access_token d = Some tok" and "tok \<noteq> []"
  shows "(\<forall>w evs. length (awaiting (run (init_client w) evs)) \<le> 1)
       \<and> refresh_calls (run (init_client True) (concurrent_401s (q # qs))) = [rt]
       \<and> awaiting (run (init_client True) (concurrent_401s (q # qs)))
           = [(fst q)\<lparr>rc_retry := True\<rparr>]
       \<and> isRefreshing (run (init_client True) (concurrent_401s (q # qs)))
       \<and> failedQueue (run (init_client True) (concurrent_401s (q # qs))) = map fst qs
       \<and> requests (run (init_client True) (concurrent_401s (q # qs))) = []
       \<and> refresh_calls
            (run (init_client True) (concurrent_401s (q # qs) @ [RefreshResolved 0 (Some d)]))
           = [rt]
       \<and> requests
            (run (init_client True) (concurrent_401s (q # qs) @ [RefreshResolved 0 (Some d)]))
           = map (set_authorization (Some tok)) ((fst q)\<lparr>rc_retry := True\<rparr> # map fst qs)
       \<and> (\<forall>c \<in> set (requests
             (run (init_client True) (concurrent_401s (q # qs) @ [RefreshResolved 0 (Some d)]))).
             rc_headers c \<noteq> None \<longrightarrow> authorization c = Some (''Bearer '' @ tok))
       \<and> rejections
            (run (init_client True) (concurrent_401s (q # qs) @ [RefreshResolved 0 (Some d)]))
           = []
       \<and> \<not> isRefreshing
            (run (init_client True) (concurrent_401s (q # qs) @ [RefreshResolved 0 (Some d)]))
       \<and> awaiting
            (run (init_client True) (concurrent_401s (q # qs) @ [RefreshResolved 0 (Some d)]))
           = []
       \<and> failedQueue
            (run (init_client True) (concurrent_401s (q # qs) @ [RefreshResolved 0 (Some d)]))
           = []"
proof -
  let ?r = "(fst q)\<lparr>rc_retry := True\<rparr>"
  let ?s1 = "run (init_client True) (concurrent_401s (q # qs))"
  let ?s2 = "run (init_client True) (concurrent_401s (q # qs) @ [RefreshResolved 0 (Some d)])"
  have s1: "?s1 = \<lparr>window = True, isRefreshing = True, failedQueue = map fst qs,
                   awaiting = [?r], effects = [RefreshCall rt]\<rparr>"
    using assms(1-3) by (rule concurrent_401s_state)
  define cs where "cs = ?r # map fst qs"
  have "?s2 = step ?s1 (RefreshResolved 0 (Some d))"
    by (simp add: run_append) (simp add: run_def)
  then have s2: "?s2 = \<lparr>window = True, isRefreshing = False, failedQueue = [], awaiting = [],
              effects = RefreshCall rt # store_cookies d
                        @ map (\<lambda>c. Request (set_authorization (Some tok) c)) cs\<rparr>"
    using refresh_resolved_state [OF assms(4,5)] s1 unfolding cs_def by simp
  have a: "\<forall>w evs. length (awaiting (run (init_client w) evs)) \<le> 1"
    using in_flight_at_most_one by blast
  have b: "refresh_calls ?s1 = [rt]" "awaiting ?s1 = [?r]" "isRefreshing ?s1"
    "failedQueue ?s1 = map fst qs" "requests ?s1 = []"
    by (simp_all add: s1 refresh_calls_def requests_def)
  have c: "refresh_calls ?s2 = [rt]"
    by (simp add: s2 refresh_calls_def store_cookies_def refresh_calls_of_Requests)
  have "requests ?s2 = map (set_authorization (Some tok)) cs"
    by (simp add: s2 requests_def store_cookies_def requests_of_Requests)
  then have d: "requests ?s2 = map (set_authorization (Some tok)) (?r # map fst qs)"
    unfolding cs_def .
  have e: "\<forall>c \<in> set (requests ?s2).
             rc_headers c \<noteq> None \<longrightarrow> authorization c = Some (''Bearer '' @ tok)"
  proof (intro ballI impI)
    fix c assume "c \<in> set (requests ?s2)" and h: "rc_headers c \<noteq> None"
    then obtain c0 where c0: "c = set_authorization (Some tok) c0"
      unfolding d by auto
    with h have "rc_headers c0 \<noteq> None"
      by (auto simp: set_authorization_def split: option.splits)
    then show "authorization c = Some (''Bearer '' @ tok)"
      unfolding c0 by (rule authorization_set)
  qed
  have f: "rejections ?s2 = []"
    by (simp add: s2 rejections_def store_cookies_def rejections_of_Requests)
  have g: "\<not> isRefreshing ?s2" "awaiting ?s2 = []" "failedQueue ?s2 = []"
    by (simp_all add: s2)
  from a b c d e f g show ?thesis by blast
qed

lemma sample_refresh_cookie:
  "stored_refresh_token True ''access_token=a1; refresh_token=r1'' = Some ''r1''"
  by (simp add: stored_refresh_token_def find_cookie_def starts_with_def trim_def
        js_space_def cookie_token_def part1_def)

theorem single_flight_refresh_witness:
  "stored_refresh_token True ''access_token=a1; refresh_token=r1'' = Some ''r1''
   \<and> refresh_calls (run (init_client True)
        (concurrent_401s
           [(\<lparr>rc_url = ''/patients/1'', rc_headers = Some [], rc_retry = False\<rparr>,
             ''access_token=a1; refresh_token=r1''),
            (\<lparr>rc_url = ''/patients/2'', rc_headers = Some [], rc_retry = False\<rparr>,
             ''access_token=a1; refresh_token=r1''),
            (\<lparr>rc_url = ''/patients/3'', rc_headers = Some [], rc_retry = False\<rparr>,
             ''access_token=a1; refresh_token=r1'')]
         @ [RefreshResolved 0 (Some \<lparr>g_access_token = Some ''a2'',
                                      g_refresh_token = Some ''r2''\<rparr>)]))
      = [''r1'']
   \<and> requests (run (init_client True)
        (concurrent_401s
           [(\<lparr>rc_url = ''/patients/1'', rc_headers = Some [], rc_retry = False\<rparr>,
             ''access_token=a1; refresh_token=r1''),
            (\<lparr>rc_url = ''/patients/2'', rc_headers = Some [], rc_retry = False\<rparr>,
             ''access_token=a1; refresh_token=r1''),
            (\<lparr>rc_url = ''/patients/3'', rc_headers = Some [], rc_retry = False\<rparr>,
             ''access_token=a1; refresh_token=r1'')]
         @ [RefreshResolved 0 (Some \<lparr>g_access_token = Some ''a2'',
                                      g_refresh_token = Some ''r2''\<rparr>)]))
      = [\<lparr>rc_url = ''/patients/1'', rc_headers = Some [(''Authorization'', ''Bearer a2'')],
          rc_retry = True\<rparr>,
         \<lparr>rc_url = ''/patients/2'', rc_headers = Some [(''Authorization'', ''Bearer a2'')],
          rc_retry = False\<rparr>,
         \<lparr>rc_url = ''/patients/3'', rc_headers = Some [(''Authorization'', ''Bearer a2'')],
          rc_retry = False\<rparr>]"
proof -
  let ?doc = "''access_token=a1; refresh_token=r1''"
  let ?q = "(\<lparr>rc_url = ''/patients/1'', rc_headers = Some [], rc_retry = False\<rparr>, ?doc)"
  let ?qs = "[(\<lparr>rc_url = ''/patients/2'', rc_headers = Some [], rc_retry = False\<rparr>, ?doc),
              (\<lparr>rc_url = ''/patients/3'', rc_headers = Some [], rc_retry = False\<rparr>, ?doc)]"
  let ?d = "\<lparr>g_access_token = Some ''a2'', g_refresh_token = Some ''r2''\<rparr>"
  have h1: "\<forall>c \<in> set (map fst (?q # ?qs)). \<not> rc_retry c" by simp
  have h2: "stored_refresh_token True (snd ?q) = Some ''r1''"
    using sample_refresh_cookie by simp
  have h3: "''r1'' \<noteq> []" by simp
  have h4: "g_access_token ?d = Some ''a2''" by simp
  have h5: "''a2'' \<noteq> []" by simp
  from single_flight_refresh [OF h1 h2 h3 h4 h5]
  have "refresh_calls (run (init_client True)
          (concurrent_401s (?q # ?qs) @ [RefreshResolved 0 (Some ?d)])) = [''r1'']"
    and "requests (run (init_client True)
          (concurrent_401s (?q # ?qs) @ [RefreshResolved 0 (Some ?d)]))
         = map (set_authorization (Some ''a2'')) ((fst ?q)\<lparr>rc_retry := True\<rparr> # map fst ?qs)"
    by blast+
  then show ?thesis using sample_refresh_cookie
    by (simp add: set_authorization_def bearer_def template_def)
qed

text \<open>
  Claim C1 as stated fails: in a browser whose cookies hold no refresh token, two
  requests that fail with 401 while no refresh is in flight lead to no refresh call at
  all; neither request is queued, each is rejected after a redirect to the login page.
\<close>

theorem no_refresh_call_without_refresh_token:
  "refresh_calls (run (init_client True)
      (concurrent_401s
         [(\<lparr>rc_url = ''/patients/1'', rc_headers = Some [], rc_retry = False\<rparr>,
           ''access_token=a1''),
          (\<lparr>rc_url = ''/patients/2'', rc_headers = Some [], rc_retry = False\<rparr>,
           ''access_token=a1'')])) = []
   \<and> failedQueue (run (init_client True)
      (concurrent_401s
         [(\<lparr>rc_url = ''/patients/1'', rc_headers = Some [], rc_retry = False\<rparr>,
           ''access_token=a1''),
          (\<lparr>rc_url = ''/patients/2'', rc_headers = Some [], rc_retry = False\<rparr>,
           ''access_token=a1'')])) = []
   \<and> map fst (rejections (run (init_client True)
      (concurrent_401s
         [(\<lparr>rc_url = ''/patients/1'', rc_headers = Some [], rc_retry = False\<rparr>,
           ''access_token=a1''),
          (\<lparr>rc_url = ''/patients/2'', rc_headers = Some [], rc_retry = False\<rparr>,
           ''access_token=a1'')])))
      = [Some \<lparr>rc_url = ''/patients/1'', rc_headers = Some [], rc_retry = True\<rparr>,
         Some \<lparr>rc_url = ''/patients/2'', rc_headers = Some [], rc_retry = True\<rparr>]"
proof -
  have tok: "stored_refresh_token True ''access_token=a1'' = Some []"
    by (simp add: stored_refresh_token_def find_cookie_def starts_with_def trim_def
          js_space_def)
  show ?thesis
    by (simp add: run_def concurrent_401s_def init_client_def on_response_error_def
          unauthorized_def Let_def tok missing_def refresh_calls_def rejections_def)
qed

lemma marked_401_is_passed_on:
  assumes "rc_retry c"
  shows "step s (ResponseError (unauthorized c) doc) = pass_on s (unauthorized c)"
  using assms by (simp add: on_response_error_def unauthorized_def)

text \<open>
  Claim C3 does not hold of the code. A request that was queued during a refresh is sent
  again without the \<open>_retry\<close> mark. Here two requests fail with 401, the refresh
  succeeds and both are retried; when the retry of the second, queued one fails with 401
  again, the client does not reject it but issues a second refresh call. (The retry of
  the first, which triggered the refresh and carries the mark, is rejected on a second
  401, by \<open>marked_401_is_passed_on\<close>.)
\<close>

theorem queued_retry_401_starts_second_refresh:
  "requests (run (init_client True)
      [ResponseError (unauthorized \<lparr>rc_url = ''/patients/1'', rc_headers = Some [],
                                    rc_retry = False\<rparr>) ''refresh_token=r1'',
       ResponseError (unauthorized \<lparr>rc_url = ''/patients/2'', rc_headers = Some [],
                                    rc_retry = False\<rparr>) ''refresh_token=r1'',
       RefreshResolved 0 (Some \<lparr>g_access_token = Some ''a2'', g_refresh_token = Some ''r2''\<rparr>)])
     = [\<lparr>rc_url = ''/patients/1'', rc_headers = Some [(''Authorization'', ''Bearer a2'')],
         rc_retry = True\<rparr>,
        \<lparr>rc_url = ''/patients/2'', rc_headers = Some [(''Authorization'', ''Bearer a2'')],
         rc_retry = False\<rparr>]
   \<and> refresh_calls (run (init_client True)
      [ResponseError (unauthorized \<lparr>rc_url = ''/patients/1'', rc_headers = Some [],
                                    rc_retry = False\<rparr>) ''refresh_token=r1'',
       ResponseError (unauthorized \<lparr>rc_url = ''/patients/2'', rc_headers = Some [],
                                    rc_retry = False\<rparr>) ''refresh_token=r1'',
       RefreshResolved 0 (Some \<lparr>g_access_token = Some ''a2'', g_refresh_token = Some ''r2''\<rparr>),
       ResponseError (unauthorized \<lparr>rc_url = ''/patients/2'',
                                    rc_headers = Some [(''Authorization'', ''Bearer a2'')],
                                    rc_retry = False\<rparr>) ''refresh_token=r2''])
     = [''r1'', ''r2'']
   \<and> rejections (run (init_client True)
      [ResponseError (unauthorized \<lparr>rc_url = ''/patients/1'', rc_headers = Some [],
                                    rc_retry = False\<rparr>) ''refresh_token=r1'',
       ResponseError (unauthorized \<lparr>rc_url = ''/patients/2'', rc_headers = Some [],
                                    rc_retry = False\<rparr>) ''refresh_token=r1'',
       RefreshResolved 0 (Some \<lparr>g_access_token = Some ''a2'', g_refresh_token = Some ''r2''\<rparr>),
       ResponseError (unauthorized \<lparr>rc_url = ''/patients/2'',
                                    rc_headers = Some [(''Authorization'', ''Bearer a2'')],
                                    rc_retry = False\<rparr>) ''refresh_token=r2''])
     = []"
proof -
  have t1: "stored_refresh_token True ''refresh_token=r1'' = Some ''r1''"
    by (simp add: stored_refresh_token_def find_cookie_def starts_with_def trim_def
          js_space_def cookie_token_def part1_def)
  have t2: "stored_refresh_token True ''refresh_token=r2'' = Some ''r2''"
    by (simp add: stored_refresh_token_def find_cookie_def starts_with_def trim_def
          js_space_def cookie_token_def part1_def)
  show ?thesis
    by (simp add: run_def init_client_def on_response_error_def unauthorized_def Let_def
          t1 t2 missing_def template_def resume_def refresh_succeeded_def processQueue_def
          store_cookies_def set_authorization_def bearer_def
          refresh_calls_def requests_def rejections_def)
qed


section \<open>The theorems at the routes and on the wire\<close>

lemma GET_patient_formats:
  assumes "pid \<noteq> []" and "\<not> missing accessToken" and "ok r" and "fr_json r = Some patientData"
  shows "fst (GET_patient e pid accessToken (FetchResponse r))
           = json_response (PatientBody (transform_patient patientData)) 200"
  using assms by (simp add: GET_patient_def Let_def)

lemma PUT_patient_formats:
  assumes "pid \<noteq> []" and "\<not> missing accessToken"
      and "member_access body ''resourceType'' = Inr rtype" and "truthy rtype"
      and "member_access body ''id'' = Inr (JStr pid)"
      and "ok r" and "fr_json r = Some updated"
  shows "fst (PUT_patient e pid accessToken (Some body) (FetchResponse r))
           = json_response
               (UpdatedBody ''Patient updated successfully'' (transform_patient updated)) 200"
  using assms by (simp add: PUT_patient_def Let_def)

lemma GET_patients_transforms:
  assumes "\<not> missing accessToken" and "ok r" and "fr_json r = Some data"
  shows "fst (GET_patients e pageParam countParam accessToken (FetchResponse r))
           = json_response (ListBody (transform_bundle (or_else pageParam ''1'') data)) 200"
  using assms by (simp add: GET_patients_def Let_def)

lemma handleSave_sends_merge:
  assumes "updatedPatient (pd_raw p) fd = Inr doc"
  shows "handleSave (Some p) fd = PutSent (''/api/patients/'' @ pd_id p) doc"
  using assms by (simp add: handleSave_def)

lemma request_interceptor_keeps_token:
  assumes "\<forall>accessTokenCookie. find_cookie ''access_token='' doc = Some accessTokenCookie
             \<longrightarrow> cookie_token accessTokenCookie = Some tok"
  shows "request_interceptor w doc (set_authorization (Some tok) config)
           = set_authorization (Some tok) config"
  using assms
  by (auto simp: request_interceptor_def set_authorization_def update_last
           split: option.splits)

end
